theory Spec2Isabelle
  imports Complex_Main
begin

section \<open>JavaScript numbers\<close>

text \<open>
  The viewer computes with JavaScript numbers. They are modelled as the real numbers
  extended with the two infinities and NaN, so that a division by zero is the value the
  code gets (an infinity or NaN) and not the 0 of HOL's total division. Rounding is left
  out (every finite operation is exact) and there is one zero, taken as positive when it
  divides.
\<close>

datatype number = Num real | PosInfinity | NegInfinity | NaN

fun number_add :: "number \<Rightarrow> number \<Rightarrow> number" where
  "number_add NaN _ = NaN"
| "number_add _ NaN = NaN"
| "number_add (Num a) (Num b) = Num (a + b)"
| "number_add PosInfinity NegInfinity = NaN"
| "number_add NegInfinity PosInfinity = NaN"
| "number_add PosInfinity _ = PosInfinity"
| "number_add _ PosInfinity = PosInfinity"
| "number_add NegInfinity _ = NegInfinity"
| "number_add _ NegInfinity = NegInfinity"

fun number_neg :: "number \<Rightarrow> number" where
  "number_neg (Num a) = Num (- a)"
| "number_neg PosInfinity = NegInfinity"
| "number_neg NegInfinity = PosInfinity"
| "number_neg NaN = NaN"

fun number_mul :: "number \<Rightarrow> number \<Rightarrow> number" where
  "number_mul NaN _ = NaN"
| "number_mul _ NaN = NaN"
| "number_mul (Num a) (Num b) = Num (a * b)"
| "number_mul PosInfinity (Num b) = (if b = 0 then NaN else if 0 < b then PosInfinity else NegInfinity)"
| "number_mul NegInfinity (Num b) = (if b = 0 then NaN else if 0 < b then NegInfinity else PosInfinity)"
| "number_mul (Num a) PosInfinity = (if a = 0 then NaN else if 0 < a then PosInfinity else NegInfinity)"
| "number_mul (Num a) NegInfinity = (if a = 0 then NaN else if 0 < a then NegInfinity else PosInfinity)"
| "number_mul PosInfinity PosInfinity = PosInfinity"
| "number_mul PosInfinity NegInfinity = NegInfinity"
| "number_mul NegInfinity PosInfinity = NegInfinity"
| "number_mul NegInfinity NegInfinity = PosInfinity"

fun number_div :: "number \<Rightarrow> number \<Rightarrow> number" where
  "number_div NaN _ = NaN"
| "number_div _ NaN = NaN"
| "number_div (Num a) (Num b) =
     (if b = 0 then (if a = 0 then NaN else if 0 < a then PosInfinity else NegInfinity)
      else Num (a / b))"
| "number_div (Num a) _ = Num 0"
| "number_div PosInfinity (Num b) = (if 0 \<le> b then PosInfinity else NegInfinity)"
| "number_div NegInfinity (Num b) = (if 0 \<le> b then NegInfinity else PosInfinity)"
| "number_div _ _ = NaN"

fun number_less :: "number \<Rightarrow> number \<Rightarrow> bool" where
  "number_less NaN _ = False"
| "number_less _ NaN = False"
| "number_less (Num a) (Num b) = (a < b)"
| "number_less NegInfinity NegInfinity = False"
| "number_less NegInfinity _ = True"
| "number_less _ NegInfinity = False"
| "number_less PosInfinity _ = False"
| "number_less _ PosInfinity = True"

fun number_le :: "number \<Rightarrow> number \<Rightarrow> bool" where
  "number_le NaN _ = False"
| "number_le _ NaN = False"
| "number_le (Num a) (Num b) = (a \<le> b)"
| "number_le NegInfinity _ = True"
| "number_le _ NegInfinity = False"
| "number_le _ PosInfinity = True"
| "number_le PosInfinity _ = False"

instantiation number :: "{plus, minus, uminus, times, inverse, ord}"
begin

definition plus_number :: "number \<Rightarrow> number \<Rightarrow> number" where
  "plus_number a b = number_add a b"

definition uminus_number :: "number \<Rightarrow> number" where
  "uminus_number a = number_neg a"

definition minus_number :: "number \<Rightarrow> number \<Rightarrow> number" where
  "minus_number a b = number_add a (number_neg b)"

definition times_number :: "number \<Rightarrow> number \<Rightarrow> number" where
  "times_number a b = number_mul a b"

definition divide_number :: "number \<Rightarrow> number \<Rightarrow> number" where
  "divide_number a b = number_div a b"

definition inverse_number :: "number \<Rightarrow> number" where
  "inverse_number a = number_div (Num 1) a"

definition less_number :: "number \<Rightarrow> number \<Rightarrow> bool" where
  "less_number a b = number_less a b"

definition less_eq_number :: "number \<Rightarrow> number \<Rightarrow> bool" where
  "less_eq_number a b = number_le a b"

instance ..

end

text \<open>\<open>Math.max\<close> of three arguments: NaN as soon as one argument is NaN.\<close>

fun number_max :: "number \<Rightarrow> number \<Rightarrow> number" where
  "number_max NaN _ = NaN"
| "number_max _ NaN = NaN"
| "number_max a b = (if a < b then b else a)"

definition Math_max :: "number \<Rightarrow> number \<Rightarrow> number \<Rightarrow> number" where
  "Math_max a b c = number_max (number_max a b) c"

section \<open>Vectors, matrices and the camera (three.js)\<close>

text \<open>
  The part of three.js that the viewer calls on its camera, as that library defines it:
  \<open>Vector3.applyMatrix4\<close> with its perspective divide, \<open>Vector3.project\<close>,
  \<open>Matrix4.makePerspective\<close> and \<open>PerspectiveCamera.updateProjectionMatrix\<close>.
  A matrix holds its sixteen elements in column-major order, \<open>e0\<close> to \<open>e15\<close>.
\<close>

datatype vector3 = Vector3 (vx: number) (vy: number) (vz: number)

record matrix4 =
  e0 :: number  e1 :: number  e2 :: number  e3 :: number
  e4 :: number  e5 :: number  e6 :: number  e7 :: number
  e8 :: number  e9 :: number  e10 :: number  e11 :: number
  e12 :: number  e13 :: number  e14 :: number  e15 :: number

definition applyMatrix4 :: "vector3 \<Rightarrow> matrix4 \<Rightarrow> vector3" where
  "applyMatrix4 v m =
     (let x = vx v; y = vy v; z = vz v;
          w = Num 1 / (e3 m * x + e7 m * y + e11 m * z + e15 m)
      in Vector3 ((e0 m * x + e4 m * y + e8 m * z + e12 m) * w)
                 ((e1 m * x + e5 m * y + e9 m * z + e13 m) * w)
                 ((e2 m * x + e6 m * y + e10 m * z + e14 m) * w))"

definition makePerspective ::
  "number \<Rightarrow> number \<Rightarrow> number \<Rightarrow> number \<Rightarrow> number \<Rightarrow> number \<Rightarrow> matrix4" where
  "makePerspective left right top' bottom near' far' =
     (let x = Num 2 * near' / (right - left);
          y = Num 2 * near' / (top' - bottom);
          a = (right + left) / (right - left);
          b = (top' + bottom) / (top' - bottom);
          c = - (far' + near') / (far' - near');
          d = (- (Num 2) * far' * near') / (far' - near')
      in \<lparr>e0 = x, e1 = Num 0, e2 = Num 0, e3 = Num 0,
          e4 = Num 0, e5 = y, e6 = Num 0, e7 = Num 0,
          e8 = a, e9 = b, e10 = c, e11 = - (Num 1),
          e12 = Num 0, e13 = Num 0, e14 = d, e15 = Num 0\<rparr>)"

text \<open>
  The camera's orientation, which three.js keeps as a quaternion, is held as the three
  axes of the rotation that quaternion stands for: the camera's right, up and backward
  directions in the world.
\<close>

datatype rotation = Rotation (xAxis: vector3) (yAxis: vector3) (zAxis: vector3)

record camera =
  position :: vector3
  quaternion :: rotation
  fov :: number
  aspect :: number
  near :: number
  far :: number
  zoom :: number
  matrixWorldInverse :: matrix4
  projectionMatrix :: matrix4

definition DEG2RAD :: real where
  "DEG2RAD = pi / 180"

fun Math_tan :: "number \<Rightarrow> number" where
  "Math_tan (Num a) = Num (tan a)"
| "Math_tan _ = NaN"

definition updateProjectionMatrix :: "camera \<Rightarrow> camera" where
  "updateProjectionMatrix cam =
     (let top' = near cam * Math_tan (Num DEG2RAD * Num 0.5 * fov cam) / zoom cam;
          height = Num 2 * top';
          width = aspect cam * height;
          left = - (Num 0.5) * width
      in cam\<lparr>projectionMatrix :=
               makePerspective left (left + width) top' (top' - height) (near cam) (far cam)\<rparr>)"

definition project :: "vector3 \<Rightarrow> camera \<Rightarrow> vector3" where
  "project v cam = applyMatrix4 (applyMatrix4 v (matrixWorldInverse cam)) (projectionMatrix cam)"

section \<open>Annotation pins and their projection\<close>

text \<open>
  A pin is the record the API returns. Its type declares \<open>geometry\<close> as required, but the
  value is parsed JSON: a record without the field is what \<open>geometry = None\<close> stands for,
  and reading a coordinate of it raises a TypeError.
\<close>

record pin =
  pin_id :: string
  model_id :: string
  geometry :: "vector3 option"
  order_index :: nat

record container =
  clientWidth :: nat
  clientHeight :: nat
  rect_width :: number
  rect_height :: number

record projected2DPin =
  pin :: pin
  x :: number
  y :: number
  visible :: bool

datatype error = TypeError | NotFoundError

definition projectPin :: "camera \<Rightarrow> container \<Rightarrow> pin \<Rightarrow> error + projected2DPin" where
  "projectPin cam rect p =
     (case geometry p of
        None \<Rightarrow> Inl TypeError
      | Some g \<Rightarrow>
          (let vec = project (Vector3 (vx g) (vy g) (vz g)) cam
           in Inr \<lparr>pin = p,
                   x = (vx vec * Num 0.5 + Num 0.5) * rect_width rect,
                   y = (- vy vec * Num 0.5 + Num 0.5) * rect_height rect,
                   visible = (vz vec < Num 1)\<rparr>))"

text \<open>\<open>Array.map\<close> with a callback that may throw: the first exception ends the map.\<close>

fun map_throwing :: "('a \<Rightarrow> error + 'b) \<Rightarrow> 'a list \<Rightarrow> error + 'b list" where
  "map_throwing f [] = Inr []"
| "map_throwing f (a # as) =
     (case f a of
        Inl e \<Rightarrow> Inl e
      | Inr b \<Rightarrow> (case map_throwing f as of Inl e \<Rightarrow> Inl e | Inr bs \<Rightarrow> Inr (b # bs)))"

text \<open>
  \<open>projectPins\<close> reads the camera ref, the container ref and the pin ref. Its value is the
  list it hands to \<open>setProjected\<close>, or the exception that leaves it.
\<close>

definition projectPins ::
  "camera option \<Rightarrow> container option \<Rightarrow> pin list \<Rightarrow> error + projected2DPin list" where
  "projectPins cameraRef containerRef currentPins =
     (case cameraRef of
        None \<Rightarrow> Inr []
      | Some cam \<Rightarrow>
          (case containerRef of
             None \<Rightarrow> Inr []
           | Some rect \<Rightarrow>
               if currentPins = [] then Inr []
               else map_throwing (projectPin cam rect) currentPins))"

section \<open>The scene graph\<close>

datatype geometry =
    LatheGeometry "(real \<times> real) list" nat
  | SphereGeometry real nat nat
  | SphereGeometrySection real nat nat real real real real
  | AssetGeometry nat

datatype material = MeshPhysicalMaterial nat | AssetMaterial nat

datatype materials = Single material | Multiple "material list"

datatype kind =
    Mesh geometry materials
  | Group
  | AmbientLight nat real
  | DirectionalLight nat real
  | GridHelper

datatype object3d =
  Object3D (kind: kind) (obj_position: vector3) (obj_scale: vector3) (children: "object3d list")

definition origin :: vector3 where
  "origin = Vector3 (Num 0) (Num 0) (Num 0)"

definition unitScale :: vector3 where
  "unitScale = Vector3 (Num 1) (Num 1) (Num 1)"

definition newMesh :: "geometry \<Rightarrow> material \<Rightarrow> object3d" where
  "newMesh g m = Object3D (Mesh g (Single m)) origin unitScale []"



section \<open>The procedural fallback model\<close>

definition shaftPoints :: "(real \<times> real) list" where
  "shaftPoints =
     map (\<lambda>i. let t = real i / 20 in (0.25 + 0.15 * cos (pi * t), t * 4 - 2)) [0..<21]"

definition boneMat :: material where
  "boneMat = MeshPhysicalMaterial 0xf5e6d3"

definition cartMat :: material where
  "cartMat = MeshPhysicalMaterial 0xb8d4e3"

definition fallbackMeshes :: "object3d list" where
  "fallbackMeshes =
     [newMesh (LatheGeometry shaftPoints 24) boneMat,
      Object3D (Mesh (SphereGeometry 0.55 24 24) (Single boneMat))
        (Vector3 (Num 0) (Num 2) (Num 0)) unitScale [],
      Object3D (Mesh (SphereGeometry 0.4 20 20) (Single boneMat))
        (Vector3 (Num (- 0.2)) (Num (- 2)) (Num 0)) unitScale [],
      Object3D (Mesh (SphereGeometry 0.4 20 20) (Single boneMat))
        (Vector3 (Num 0.2) (Num (- 2)) (Num 0)) unitScale [],
      Object3D (Mesh (SphereGeometrySection 0.56 24 24 0 (pi * 2) 0 (pi / 3)) (Single cartMat))
        (Vector3 (Num 0) (Num 2) (Num 0)) unitScale []]"

definition buildFallbackModel :: "object3d list \<Rightarrow> object3d list" where
  "buildFallbackModel sceneChildren = sceneChildren @ fallbackMeshes"

section \<open>Camera rig, renderer and the library's own steps\<close>

record controls =
  target :: vector3
  enableDamping :: bool
  dampingFactor :: number
  minDistance :: number
  maxDistance :: number
  autoRotate :: bool
  autoRotateSpeed :: number

record renderer =
  size_width :: nat
  size_height :: nat
  renders :: nat

text \<open>
  What the viewer calls in three.js without the result being fixed by the viewer's own
  code: \<open>OrbitControls.update\<close>, \<open>Object3D.lookAt\<close>, the refresh of the camera's
  world matrices that \<open>WebGLRenderer.render\<close> performs, and
  \<open>Camera.getWorldDirection\<close>. They are parameters of the model.
\<close>

record three =
  orbitUpdate :: "controls \<Rightarrow> camera \<Rightarrow> controls \<times> camera"
  lookAt :: "camera \<Rightarrow> vector3 \<Rightarrow> camera"
  updateMatrixWorld :: "camera \<Rightarrow> camera"
  getWorldDirection :: "camera \<Rightarrow> vector3"

definition identityRotation :: rotation where
  "identityRotation =
     Rotation (Vector3 (Num 1) (Num 0) (Num 0)) (Vector3 (Num 0) (Num 1) (Num 0))
       (Vector3 (Num 0) (Num 0) (Num 1))"

definition identity4 :: matrix4 where
  "identity4 =
     \<lparr>e0 = Num 1, e1 = Num 0, e2 = Num 0, e3 = Num 0,
      e4 = Num 0, e5 = Num 1, e6 = Num 0, e7 = Num 0,
      e8 = Num 0, e9 = Num 0, e10 = Num 1, e11 = Num 0,
      e12 = Num 0, e13 = Num 0, e14 = Num 0, e15 = Num 1\<rparr>"

definition PerspectiveCamera :: "number \<Rightarrow> number \<Rightarrow> number \<Rightarrow> number \<Rightarrow> camera" where
  "PerspectiveCamera fov' aspect' near' far' =
     updateProjectionMatrix
       \<lparr>position = origin, quaternion = identityRotation,
        fov = fov', aspect = aspect', near = near', far = far', zoom = Num 1,
        matrixWorldInverse = identity4, projectionMatrix = identity4\<rparr>"

definition OrbitControls :: "three \<Rightarrow> camera \<Rightarrow> controls \<times> camera" where
  "OrbitControls lib cam =
     orbitUpdate lib
       \<lparr>target = origin, enableDamping = False, dampingFactor = Num 0.05,
        minDistance = Num 0, maxDistance = PosInfinity,
        autoRotate = False, autoRotateSpeed = Num 2\<rparr> cam"

section \<open>The scene session\<close>

datatype call =
    CancelAnimationFrame nat
  | ResizeObserverDisconnect
  | RemoveEventListener
  | ControlsDispose
  | RendererDispose
  | RemoveChild
  | GeometryDispose geometry
  | MaterialDispose material

record session =
  container :: container
  containerRef :: bool
  scene :: "object3d list"
  camera :: camera
  controls :: controls
  renderer :: renderer
  canvasInContainer :: bool
  animFrameRef :: nat
  scheduledFrame :: "nat option"
  nextHandle :: nat
  observing :: bool
  dblclickListener :: bool
  pinsRef :: "pin list"
  projected :: "projected2DPin list"
  isLoading :: bool
  loadError :: "string option"
  loadProgress :: nat
  requests :: "string list"
  calls :: "call list"
  uncaught :: "error list"

subsection \<open>The render loop\<close>

text \<open>
  \<open>scheduledFrame\<close> is the browser's side of \<open>requestAnimationFrame\<close>: the handle of
  the callback waiting for the next display refresh, if there is one.
\<close>

definition requestAnimationFrame :: "session \<Rightarrow> session" where
  "requestAnimationFrame s =
     s\<lparr>animFrameRef := nextHandle s,
       scheduledFrame := Some (nextHandle s),
       nextHandle := Suc (nextHandle s)\<rparr>"


definition render :: "three \<Rightarrow> session \<Rightarrow> session" where
  "render lib s =
     s\<lparr>camera := updateMatrixWorld lib (camera s),
       renderer := (renderer s)\<lparr>renders := Suc (renders (renderer s))\<rparr>\<rparr>"

definition controlsUpdate :: "three \<Rightarrow> session \<Rightarrow> session" where
  "controlsUpdate lib s =
     (case orbitUpdate lib (controls s) (camera s) of
        (ctl, cam) \<Rightarrow> s\<lparr>controls := ctl, camera := cam\<rparr>)"

definition runProjectPins :: "session \<Rightarrow> session" where
  "runProjectPins s =
     (case projectPins (Some (camera s))
             (if containerRef s then Some (container s) else None) (pinsRef s) of
        Inl e \<Rightarrow> s\<lparr>uncaught := uncaught s @ [e]\<rparr>
      | Inr result \<Rightarrow> s\<lparr>projected := result\<rparr>)"

definition animate :: "three \<Rightarrow> session \<Rightarrow> session" where
  "animate lib s = runProjectPins (render lib (controlsUpdate lib (requestAnimationFrame s)))"

definition displayRefresh :: "three \<Rightarrow> session \<Rightarrow> session" where
  "displayRefresh lib s =
     (case scheduledFrame s of
        None \<Rightarrow> s
      | Some h \<Rightarrow> animate lib (s\<lparr>scheduledFrame := None\<rparr>))"

subsection \<open>Resize tracking\<close>

definition handleResize :: "session \<Rightarrow> session" where
  "handleResize s =
     (let w = clientWidth (container s);
          h = clientHeight (container s)
      in s\<lparr>camera := updateProjectionMatrix ((camera s)\<lparr>aspect := Num (real w) / Num (real h)\<rparr>),
           renderer := (renderer s)\<lparr>size_width := w, size_height := h\<rparr>\<rparr>)"

text \<open>The host surface takes a new size; the observer, while connected, runs \<open>handleResize\<close>.\<close>

definition hostResized :: "nat \<Rightarrow> nat \<Rightarrow> session \<Rightarrow> session" where
  "hostResized w h s =
     (let s' = s\<lparr>container := \<lparr>clientWidth = w, clientHeight = h,
                                 rect_width = Num (real w), rect_height = Num (real h)\<rparr>\<rparr>
      in if observing s' then handleResize s' else s')"

subsection \<open>Asset load callbacks\<close>

record box3 =
  box_min :: vector3
  box_max :: vector3

definition isEmpty :: "box3 \<Rightarrow> bool" where
  "isEmpty b \<longleftrightarrow>
     vx (box_max b) < vx (box_min b) \<or> vy (box_max b) < vy (box_min b)
     \<or> vz (box_max b) < vz (box_min b)"

definition multiplyScalar :: "vector3 \<Rightarrow> number \<Rightarrow> vector3" where
  "multiplyScalar v k = Vector3 (vx v * k) (vy v * k) (vz v * k)"

definition sub :: "vector3 \<Rightarrow> vector3 \<Rightarrow> vector3" where
  "sub a b = Vector3 (vx a - vx b) (vy a - vy b) (vz a - vz b)"

definition addVectors :: "vector3 \<Rightarrow> vector3 \<Rightarrow> vector3" where
  "addVectors a b = Vector3 (vx a + vx b) (vy a + vy b) (vz a + vz b)"

definition addScaledVector :: "vector3 \<Rightarrow> vector3 \<Rightarrow> number \<Rightarrow> vector3" where
  "addScaledVector a v k = Vector3 (vx a + vx v * k) (vy a + vy v * k) (vz a + vz v * k)"

definition getCenter :: "box3 \<Rightarrow> vector3" where
  "getCenter b =
     (if isEmpty b then origin else multiplyScalar (addVectors (box_min b) (box_max b)) (Num 0.5))"

definition getSize :: "box3 \<Rightarrow> vector3" where
  "getSize b = (if isEmpty b then origin else sub (box_max b) (box_min b))"

text \<open>
  A loaded asset: the root of its scene graph and the box that \<open>Box3.setFromObject\<close>
  computes for it.
\<close>

record gltf =
  gltf_scene :: object3d
  gltf_box :: box3

definition modelScale :: "box3 \<Rightarrow> number" where
  "modelScale box =
     (let size = getSize box;
          maxDim = Math_max (vx size) (vy size) (vz size)
      in Num 3 / maxDim)"

definition placeModel :: "gltf \<Rightarrow> object3d" where
  "placeModel g =
     (let model = gltf_scene g;
          center = getCenter (gltf_box g);
          scale = modelScale (gltf_box g)
      in Object3D (kind model)
           (sub (obj_position model) (multiplyScalar center scale))
           (Vector3 scale scale scale)
           (children model))"

definition onLoad :: "three \<Rightarrow> gltf \<Rightarrow> session \<Rightarrow> session" where
  "onLoad lib g s =
     (let size = getSize (gltf_box g);
          maxDim = Math_max (vx size) (vy size) (vz size);
          scale = Num 3 / maxDim;
          s1 = s\<lparr>scene := scene s @ [placeModel g],
                 controls := (controls s)\<lparr>target := origin\<rparr>,
                 camera := (camera s)\<lparr>position :=
                    Vector3 (maxDim * scale * Num 1.5) (maxDim * scale) (maxDim * scale * Num 1.5)\<rparr>\<rparr>
      in (controlsUpdate lib s1)\<lparr>isLoading := False\<rparr>)"

definition loadErrorMessage :: string where
  "loadErrorMessage = ''Error al cargar el modelo 3D''"

definition onError :: "session \<Rightarrow> session" where
  "onError s =
     s\<lparr>loadError := Some loadErrorMessage,
       scene := buildFallbackModel (scene s),
       isLoading := False\<rparr>"

subsection \<open>Building the session\<close>

definition sceneLights :: "object3d list" where
  "sceneLights =
     [Object3D (AmbientLight 0x606080 1.0) origin unitScale [],
      Object3D (DirectionalLight 0xffffff 2.0) (Vector3 (Num 5) (Num 8) (Num 5)) unitScale [],
      Object3D (DirectionalLight 0x8888ff 0.5) (Vector3 (Num (- 3)) (Num 2) (Num (- 3))) unitScale [],
      Object3D (DirectionalLight 0x4488ff 0.4) (Vector3 (Num 0) (Num (- 2)) (Num (- 5))) unitScale [],
      Object3D GridHelper (Vector3 (Num 0) (Num (- 1.5)) (Num 0)) unitScale []]"

definition truthy :: "string option \<Rightarrow> bool" where
  "truthy u \<longleftrightarrow> (case u of None \<Rightarrow> False | Some str \<Rightarrow> str \<noteq> [])"

text \<open>
  The scene effect, for the container it finds in the container ref. \<open>pins\<close> and
  \<open>previous\<close> are the component state that outlives a session: the pin ref and the
  projected list. The effect runs the first tick itself; an exception of that tick (a pin
  without geometry already in the pin ref) is recorded in \<open>uncaught\<close> here, while in the
  source it leaves the effect before the observer and the listener are set up.
\<close>

definition newSession ::
  "three \<Rightarrow> container \<Rightarrow> string option \<Rightarrow> pin list \<Rightarrow> projected2DPin list \<Rightarrow> session" where
  "newSession lib cont fileUrl pins previous =
     (let w = clientWidth cont;
          h = clientHeight cont;
          cam0 = PerspectiveCamera (Num 45) (Num (real w) / Num (real h)) (Num 0.01) (Num 200);
          cam1 = lookAt lib (cam0\<lparr>position := Vector3 (Num 3) (Num 2) (Num 4)\<rparr>) origin;
          (ctl0, cam2) = OrbitControls lib cam1;
          ctl1 = ctl0\<lparr>enableDamping := True, dampingFactor := Num 0.08, target := origin,
                     minDistance := Num 0.5, maxDistance := Num 20,
                     autoRotate := True, autoRotateSpeed := Num 0.5\<rparr>;
          s0 = \<lparr>container = cont, containerRef = True,
                scene = (if truthy fileUrl then sceneLights else buildFallbackModel sceneLights),
                camera = cam2, controls = ctl1,
                renderer = \<lparr>size_width = w, size_height = h, renders = 0\<rparr>,
                canvasInContainer = True,
                animFrameRef = 0, scheduledFrame = None, nextHandle = 1,
                observing = False, dblclickListener = False,
                pinsRef = pins, projected = previous,
                isLoading = truthy fileUrl,
                loadError = None, loadProgress = 0,
                requests = (case fileUrl of None \<Rightarrow> [] | Some u \<Rightarrow> if u = [] then [] else [u]),
                calls = [], uncaught = []\<rparr>
      in (animate lib s0)\<lparr>observing := True, dblclickListener := True\<rparr>)"


subsection \<open>Teardown\<close>




subsection \<open>Camera operations\<close>

text \<open>
  The three buttons read the camera and controls refs, which the scene effect fills
  together and nothing clears: \<open>None\<close> is the component before its first session.
\<close>

definition defaultPose :: "session \<Rightarrow> session" where
  "defaultPose s =
     s\<lparr>camera := (camera s)\<lparr>position := Vector3 (Num 3) (Num 2) (Num 4)\<rparr>,
       controls := (controls s)\<lparr>target := Vector3 (Num 0) (Num 0) (Num 0)\<rparr>\<rparr>"

definition resetCamera :: "three \<Rightarrow> session option \<Rightarrow> session option" where
  "resetCamera lib ref =
     (case ref of
        None \<Rightarrow> None
      | Some s \<Rightarrow> Some (controlsUpdate lib (defaultPose s)))"

definition zoomIn :: "three \<Rightarrow> session option \<Rightarrow> session option" where
  "zoomIn lib ref =
     (case ref of
        None \<Rightarrow> None
      | Some s \<Rightarrow>
          (let dir = getWorldDirection lib (camera s)
           in Some (s\<lparr>camera := (camera s)\<lparr>position :=
                         addScaledVector (position (camera s)) dir (Num 0.5)\<rparr>\<rparr>)))"

definition zoomOut :: "three \<Rightarrow> session option \<Rightarrow> session option" where
  "zoomOut lib ref =
     (case ref of
        None \<Rightarrow> None
      | Some s \<Rightarrow>
          (let dir = getWorldDirection lib (camera s)
           in Some (s\<lparr>camera := (camera s)\<lparr>position :=
                         addScaledVector (position (camera s)) dir (Num (- 0.5))\<rparr>\<rparr>)))"

datatype zoomOp = ZoomIn | ZoomOut

fun zoomStep :: "three \<Rightarrow> session option \<Rightarrow> zoomOp \<Rightarrow> session option" where
  "zoomStep lib ref ZoomIn = zoomIn lib ref"
| "zoomStep lib ref ZoomOut = zoomOut lib ref"

definition pose :: "session option \<Rightarrow> (vector3 \<times> vector3) option" where
  "pose ref = map_option (\<lambda>s. (position (camera s), target (controls s))) ref"

subsection \<open>A session's life\<close>

text \<open>
  What can happen to a session between the scene effect and its cleanup: the display
  refreshes, the host surface takes a new size, the pin list is replaced, the asset load
  succeeds or fails.
\<close>

datatype event =
    Refresh
  | Resized nat nat
  | PinsChanged "pin list"
  | Loaded gltf
  | LoadFailed

fun step :: "three \<Rightarrow> session \<Rightarrow> event \<Rightarrow> session" where
  "step lib s Refresh = displayRefresh lib s"
| "step lib s (Resized w h) = hostResized w h s"
| "step lib s (PinsChanged pins) = s\<lparr>pinsRef := pins\<rparr>"
| "step lib s (Loaded g) = onLoad lib g s"
| "step lib s LoadFailed = onError s"

definition run :: "three \<Rightarrow> session \<Rightarrow> event list \<Rightarrow> session" where
  "run lib s events = foldl (step lib) s events"




section \<open>Concrete values\<close>

text \<open>
  A library instance for evaluating the model, after three.js.
  \<^item> \<open>lookAtTarget\<close> is \<open>Object3D.lookAt\<close> for a camera without parent and with the
    default up vector: the axes that \<open>Matrix4.lookAt\<close> computes from the camera's
    position, the target and \<open>(0, 1, 0)\<close>, with its two special cases.
  \<^item> \<open>orbitStep\<close> is \<open>OrbitControls.update\<close> for controls at rest inside the distance
    and angle limits: with auto-rotation on, the offset from the target turns about the
    vertical axis by \<open>2\<pi> / 60 / 60 \<times> autoRotateSpeed\<close>, damped by \<open>dampingFactor\<close>; the
    camera then looks at the target.
  \<^item> \<open>worldInverse\<close> is the world matrix inverse that rendering refreshes: for a rotation
    and a translation, the transposed rotation and the translation taken back through it.
  \<^item> \<open>worldDirection\<close> is \<open>Camera.getWorldDirection\<close>: the opposite of the backward axis.
\<close>

fun Math_sin :: "number \<Rightarrow> number" where
  "Math_sin (Num a) = Num (sin a)"
| "Math_sin _ = NaN"

fun Math_cos :: "number \<Rightarrow> number" where
  "Math_cos (Num a) = Num (cos a)"
| "Math_cos _ = NaN"

fun Math_sqrt :: "number \<Rightarrow> number" where
  "Math_sqrt (Num a) = (if a < 0 then NaN else Num (sqrt a))"
| "Math_sqrt PosInfinity = PosInfinity"
| "Math_sqrt _ = NaN"

definition lengthSq :: "vector3 \<Rightarrow> number" where
  "lengthSq v = vx v * vx v + vy v * vy v + vz v * vz v"

definition dot :: "vector3 \<Rightarrow> vector3 \<Rightarrow> number" where
  "dot a b = vx a * vx b + vy a * vy b + vz a * vz b"

definition crossVectors :: "vector3 \<Rightarrow> vector3 \<Rightarrow> vector3" where
  "crossVectors a b =
     Vector3 (vy a * vz b - vz a * vy b) (vz a * vx b - vx a * vz b) (vx a * vy b - vy a * vx b)"

text \<open>\<open>Vector3.normalize\<close> divides by \<open>length || 1\<close>: by 1 when the length is 0 or NaN.\<close>

definition normalizeVector :: "vector3 \<Rightarrow> vector3" where
  "normalizeVector v =
     (let l = Math_sqrt (lengthSq v)
      in multiplyScalar v (Num 1 / (if l = Num 0 \<or> l = NaN then Num 1 else l)))"

definition lookAtAxes :: "vector3 \<Rightarrow> vector3 \<Rightarrow> vector3 \<Rightarrow> rotation" where
  "lookAtAxes eye tgt up =
     (let z0 = sub eye tgt;
          z1 = normalizeVector (if lengthSq z0 = Num 0 then Vector3 (vx z0) (vy z0) (Num 1) else z0);
          x1 = crossVectors up z1;
          z2 = (if lengthSq x1 = Num 0
                then normalizeVector
                       (if vz up = Num 1 \<or> vz up = Num (- 1)
                        then Vector3 (vx z1 + Num 0.0001) (vy z1) (vz z1)
                        else Vector3 (vx z1) (vy z1) (vz z1 + Num 0.0001))
                else z1);
          x2 = normalizeVector (if lengthSq x1 = Num 0 then crossVectors up z2 else x1)
      in Rotation x2 (crossVectors z2 x2) z2)"

definition lookAtTarget :: "camera \<Rightarrow> vector3 \<Rightarrow> camera" where
  "lookAtTarget cam tgt =
     cam\<lparr>quaternion := lookAtAxes (position cam) tgt (Vector3 (Num 0) (Num 1) (Num 0))\<rparr>"

definition autoRotateStep :: "controls \<Rightarrow> camera \<Rightarrow> controls \<times> camera" where
  "autoRotateStep ctl cam =
     (if autoRotate ctl
      then
        (let angle = Num (2 * pi / 60 / 60) * autoRotateSpeed ctl
                       * (if enableDamping ctl then dampingFactor ctl else Num 1);
             offset = sub (position cam) (target ctl);
             turned = Vector3 (vx offset * Math_cos angle - vz offset * Math_sin angle)
                              (vy offset)
                              (vz offset * Math_cos angle + vx offset * Math_sin angle)
         in (ctl, cam\<lparr>position := addVectors (target ctl) turned\<rparr>))
      else (ctl, cam))"

definition orbitStep :: "controls \<Rightarrow> camera \<Rightarrow> controls \<times> camera" where
  "orbitStep ctl cam =
     (case autoRotateStep ctl cam of (ctl', cam') \<Rightarrow> (ctl', lookAtTarget cam' (target ctl')))"

definition worldInverse :: "camera \<Rightarrow> camera" where
  "worldInverse cam =
     (let xa = xAxis (quaternion cam); ya = yAxis (quaternion cam); za = zAxis (quaternion cam);
          p = position cam
      in cam\<lparr>matrixWorldInverse :=
               \<lparr>e0 = vx xa, e1 = vx ya, e2 = vx za, e3 = Num 0,
                e4 = vy xa, e5 = vy ya, e6 = vy za, e7 = Num 0,
                e8 = vz xa, e9 = vz ya, e10 = vz za, e11 = Num 0,
                e12 = - dot xa p, e13 = - dot ya p, e14 = - dot za p, e15 = Num 1\<rparr>\<rparr>)"

definition worldDirection :: "camera \<Rightarrow> vector3" where
  "worldDirection cam =
     (let za = zAxis (quaternion cam) in normalizeVector (Vector3 (- vx za) (- vy za) (- vz za)))"

text \<open>
  The controls as the scene effect leaves them, and the camera it hands to its first tick
  (the constructor of the controls has looked at the target once more).
\<close>

definition viewerControls :: controls where
  "viewerControls =
     \<lparr>target = origin, enableDamping = True, dampingFactor = Num 0.08,
      minDistance = Num 0.5, maxDistance = Num 20, autoRotate = True, autoRotateSpeed = Num 0.5\<rparr>"

definition startCamera :: "container \<Rightarrow> camera" where
  "startCamera cont =
     lookAtTarget
       (lookAtTarget
          ((PerspectiveCamera (Num 45)
              (Num (real (clientWidth cont)) / Num (real (clientHeight cont)))
              (Num 0.01) (Num 200))\<lparr>position := Vector3 (Num 3) (Num 2) (Num 4)\<rparr>)
          origin)
       origin"

definition exampleThree :: three where
  "exampleThree =
     \<lparr>orbitUpdate = orbitStep,
      lookAt = lookAtTarget,
      updateMatrixWorld = worldInverse,
      getWorldDirection = worldDirection\<rparr>"

text \<open>
  The circle on which auto-rotation keeps the camera that starts at \<open>(3, 2, 4)\<close>: height 2,
  distance 5 from the vertical axis.
\<close>

definition onOrbit :: "camera \<Rightarrow> bool" where
  "onOrbit cam =
     (case position cam of
        Vector3 (Num a) (Num b) (Num c) \<Rightarrow> b = 2 \<and> a * a + c * c = 25
      | _ \<Rightarrow> False)"

text \<open>The angle of one damped auto-rotation step at the speed and damping the viewer sets.\<close>

definition autoRotateAngle :: real where
  "autoRotateAngle = 2 * pi / 60 / 60 * 0.5 * 0.08"


definition exampleContainer :: container where
  "exampleContainer =
     \<lparr>clientWidth = 800, clientHeight = 600, rect_width = Num 800, rect_height = Num 600\<rparr>"

definition examplePin :: "string \<Rightarrow> vector3 option \<Rightarrow> pin" where
  "examplePin i g = \<lparr>pin_id = i, model_id = ''m1'', geometry = g, order_index = 0\<rparr>"

definition exampleSession :: session where
  "exampleSession =
     newSession exampleThree exampleContainer (Some ''model.glb'')
       [examplePin ''a'' (Some (Vector3 (Num 0) (Num 0) (Num 0)))] []"

text \<open>
  A pin at the origin, which the camera looks at, and a pin two units above it. The
  scenario of a surface that shrinks to nothing: the example session, on its 800 by 600
  surface, is given the two pins and then resized to 0 by 0.
\<close>

definition originPin :: pin where
  "originPin = examplePin ''a'' (Some (Vector3 (Num 0) (Num 0) (Num 0)))"

definition raisedPin :: pin where
  "raisedPin = examplePin ''b'' (Some (Vector3 (Num 0) (Num 2) (Num 0)))"

definition zeroSizedSession :: session where
  "zeroSizedSession =
     run exampleThree exampleSession [PinsChanged [originPin, raisedPin], Resized 0 0]"



definition emptyAsset :: gltf where
  "emptyAsset =
     \<lparr>gltf_scene = Object3D Group origin unitScale [],
      gltf_box =
        \<lparr>box_min = Vector3 PosInfinity PosInfinity PosInfinity,
         box_max = Vector3 NegInfinity NegInfinity NegInfinity\<rparr>\<rparr>"

text \<open>The example session one tick after the load of the asset without meshes.\<close>

definition emptyLoadedSession :: session where
  "emptyLoadedSession = run exampleThree exampleSession [Loaded emptyAsset, Refresh]"

section \<open>What the specification says\<close>

text \<open>
  Normalized device coordinates as the glossary has them: the camera-projected coordinates
  of the position. A matrix acts on a point through homogeneous coordinates: it is applied
  to the point with a fourth coordinate 1 and the first three coordinates of the product
  are divided by the fourth. The position goes through the inverse of the camera's world
  matrix into camera space and from there through the projection matrix.
\<close>

definition homogeneousDivide :: "matrix4 \<Rightarrow> vector3 \<Rightarrow> vector3" where
  "homogeneousDivide m v =
     (let w = e3 m * vx v + e7 m * vy v + e11 m * vz v + e15 m
      in Vector3 ((e0 m * vx v + e4 m * vy v + e8 m * vz v + e12 m) / w)
                 ((e1 m * vx v + e5 m * vy v + e9 m * vz v + e13 m) / w)
                 ((e2 m * vx v + e6 m * vy v + e10 m * vz v + e14 m) / w))"

definition normalizedDeviceCoordinates :: "camera \<Rightarrow> vector3 \<Rightarrow> vector3" where
  "normalizedDeviceCoordinates cam g =
     homogeneousDivide (projectionMatrix cam) (homogeneousDivide (matrixWorldInverse cam) g)"

text \<open>
  The projected pin as the specification words it: pixel coordinates from the normalized
  device coordinates, invisible exactly when the depth component is at least 1.
\<close>

definition specProjectedPin :: "camera \<Rightarrow> container \<Rightarrow> pin \<Rightarrow> vector3 \<Rightarrow> projected2DPin" where
  "specProjectedPin cam rect p g =
     (let ndc = normalizedDeviceCoordinates cam g
      in \<lparr>pin = p,
          x = (vx ndc * Num 0.5 + Num 0.5) * rect_width rect,
          y = (- vy ndc * Num 0.5 + Num 0.5) * rect_height rect,
          visible = (\<not> Num 1 \<le> vz ndc)\<rparr>)"

text \<open>The same, with a pin whose depth is NaN invisible as well.\<close>

definition amendedProjectedPin :: "camera \<Rightarrow> container \<Rightarrow> pin \<Rightarrow> vector3 \<Rightarrow> projected2DPin" where
  "amendedProjectedPin cam rect p g =
     (let ndc = normalizedDeviceCoordinates cam g
      in \<lparr>pin = p,
          x = (vx ndc * Num 0.5 + Num 0.5) * rect_width rect,
          y = (- vy ndc * Num 0.5 + Num 0.5) * rect_height rect,
          visible = (\<not> (Num 1 \<le> vz ndc \<or> vz ndc = NaN))\<rparr>)"

text \<open>
  The projection matrix of the viewer's camera (field of view 45 degrees, near plane 0.01,
  far plane 200, zoom 1) for the aspect \<open>r\<close>, written out.
\<close>

definition tanHalfFov :: real where
  "tanHalfFov = tan (DEG2RAD * 45 / 2)"

definition viewerProjection :: "real \<Rightarrow> matrix4" where
  "viewerProjection r =
     \<lparr>e0 = Num (1 / (r * tanHalfFov)), e1 = Num 0, e2 = Num 0, e3 = Num 0,
      e4 = Num 0, e5 = Num (1 / tanHalfFov), e6 = Num 0, e7 = Num 0,
      e8 = Num 0, e9 = Num 0, e10 = Num (- (200.01 / 199.99)), e11 = Num (- 1),
      e12 = Num 0, e13 = Num 0, e14 = Num (- (4 / 199.99)), e15 = Num 0\<rparr>"

definition viewerIntrinsics :: "camera \<Rightarrow> bool" where
  "viewerIntrinsics cam \<longleftrightarrow>
     fov cam = Num 45 \<and> near cam = Num 0.01 \<and> far cam = Num 200 \<and> zoom cam = Num 1"

text \<open>
  A pin lies inside the view cone of a camera with the aspect \<open>r\<close> when its position in
  camera space is finite, in front of the camera and between the four side planes of the
  frustum; a projected pin lies on the surface when its pixel coordinates are in
  \<open>[0, width] \<times> [0, height]\<close>.
\<close>

definition inViewCone :: "real \<Rightarrow> camera \<Rightarrow> pin \<Rightarrow> bool" where
  "inViewCone r cam p =
     (case geometry p of
        None \<Rightarrow> False
      | Some g \<Rightarrow>
          (case homogeneousDivide (matrixWorldInverse cam) g of
             Vector3 (Num a) (Num b) (Num c) \<Rightarrow>
               c < 0 \<and> \<bar>a\<bar> \<le> r * tanHalfFov * (- c) \<and> \<bar>b\<bar> \<le> tanHalfFov * (- c)
           | _ \<Rightarrow> False))"

definition withinSurface :: "nat \<Rightarrow> nat \<Rightarrow> projected2DPin \<Rightarrow> bool" where
  "withinSurface w h q \<longleftrightarrow>
     Num 0 \<le> x q \<and> x q \<le> Num (real w) \<and> Num 0 \<le> y q \<and> y q \<le> Num (real h)"


section \<open>Arithmetic of JavaScript numbers\<close>

lemmas number_ops =
  plus_number_def uminus_number_def minus_number_def times_number_def
  divide_number_def less_number_def less_eq_number_def

section \<open>Projection of pins\<close>

lemma projectPins_as_map:
  "projectPins (Some cam) (Some rect) pins = map_throwing (projectPin cam rect) pins"
  by (cases pins) (simp_all add: projectPins_def)




lemma projectPin_pin: "projectPin cam rect p = Inr q \<Longrightarrow> pin q = p"
  by (auto simp: projectPin_def Let_def split: option.splits)

lemma projectPin_total: "geometry p \<noteq> None \<Longrightarrow> \<exists>q. projectPin cam rect p = Inr q"
  by (auto simp: projectPin_def Let_def split: option.splits)







lemma map_throwing_pins:
  "list_all (\<lambda>p. geometry p \<noteq> None) pins \<Longrightarrow>
   \<exists>qs. map_throwing (projectPin cam rect) pins = Inr qs \<and> map pin qs = pins"
proof (induction pins)
  case Nil
  show ?case by simp
next
  case (Cons p ps)
  then obtain q qs where "projectPin cam rect p = Inr q"
    "map_throwing (projectPin cam rect) ps = Inr qs" "map pin qs = ps"
    using projectPin_total [of p cam rect] by auto
  then show ?case by (simp add: projectPin_pin)
qed






section \<open>What each step of a session leaves alone\<close>

lemma requestAnimationFrame_fields [simp]:
  "scene (requestAnimationFrame s) = scene s"
  "container (requestAnimationFrame s) = container s"
  "containerRef (requestAnimationFrame s) = containerRef s"
  "camera (requestAnimationFrame s) = camera s"
  "controls (requestAnimationFrame s) = controls s"
  "renderer (requestAnimationFrame s) = renderer s"
  "canvasInContainer (requestAnimationFrame s) = canvasInContainer s"
  "observing (requestAnimationFrame s) = observing s"
  "dblclickListener (requestAnimationFrame s) = dblclickListener s"
  "pinsRef (requestAnimationFrame s) = pinsRef s"
  "projected (requestAnimationFrame s) = projected s"
  "isLoading (requestAnimationFrame s) = isLoading s"
  "loadError (requestAnimationFrame s) = loadError s"
  "requests (requestAnimationFrame s) = requests s"
  "calls (requestAnimationFrame s) = calls s"
  "uncaught (requestAnimationFrame s) = uncaught s"
  "scheduledFrame (requestAnimationFrame s) = Some (nextHandle s)"
  "animFrameRef (requestAnimationFrame s) = nextHandle s"
  by (simp_all add: requestAnimationFrame_def)

lemma controlsUpdate_fields [simp]:
  "scene (controlsUpdate lib s) = scene s"
  "container (controlsUpdate lib s) = container s"
  "containerRef (controlsUpdate lib s) = containerRef s"
  "renderer (controlsUpdate lib s) = renderer s"
  "canvasInContainer (controlsUpdate lib s) = canvasInContainer s"
  "observing (controlsUpdate lib s) = observing s"
  "dblclickListener (controlsUpdate lib s) = dblclickListener s"
  "pinsRef (controlsUpdate lib s) = pinsRef s"
  "projected (controlsUpdate lib s) = projected s"
  "isLoading (controlsUpdate lib s) = isLoading s"
  "loadError (controlsUpdate lib s) = loadError s"
  "requests (controlsUpdate lib s) = requests s"
  "calls (controlsUpdate lib s) = calls s"
  "uncaught (controlsUpdate lib s) = uncaught s"
  "scheduledFrame (controlsUpdate lib s) = scheduledFrame s"
  "animFrameRef (controlsUpdate lib s) = animFrameRef s"
  "nextHandle (controlsUpdate lib s) = nextHandle s"
  by (simp_all add: controlsUpdate_def split: prod.splits)

lemma render_fields [simp]:
  "scene (render lib s) = scene s"
  "container (render lib s) = container s"
  "containerRef (render lib s) = containerRef s"
  "controls (render lib s) = controls s"
  "camera (render lib s) = updateMatrixWorld lib (camera s)"
  "renders (renderer (render lib s)) = Suc (renders (renderer s))"
  "canvasInContainer (render lib s) = canvasInContainer s"
  "observing (render lib s) = observing s"
  "dblclickListener (render lib s) = dblclickListener s"
  "pinsRef (render lib s) = pinsRef s"
  "projected (render lib s) = projected s"
  "isLoading (render lib s) = isLoading s"
  "loadError (render lib s) = loadError s"
  "requests (render lib s) = requests s"
  "calls (render lib s) = calls s"
  "uncaught (render lib s) = uncaught s"
  "scheduledFrame (render lib s) = scheduledFrame s"
  "animFrameRef (render lib s) = animFrameRef s"
  "nextHandle (render lib s) = nextHandle s"
  by (simp_all add: render_def)

lemma runProjectPins_fields [simp]:
  "scene (runProjectPins s) = scene s"
  "container (runProjectPins s) = container s"
  "containerRef (runProjectPins s) = containerRef s"
  "controls (runProjectPins s) = controls s"
  "camera (runProjectPins s) = camera s"
  "renderer (runProjectPins s) = renderer s"
  "canvasInContainer (runProjectPins s) = canvasInContainer s"
  "observing (runProjectPins s) = observing s"
  "dblclickListener (runProjectPins s) = dblclickListener s"
  "pinsRef (runProjectPins s) = pinsRef s"
  "isLoading (runProjectPins s) = isLoading s"
  "loadError (runProjectPins s) = loadError s"
  "requests (runProjectPins s) = requests s"
  "calls (runProjectPins s) = calls s"
  "scheduledFrame (runProjectPins s) = scheduledFrame s"
  "animFrameRef (runProjectPins s) = animFrameRef s"
  "nextHandle (runProjectPins s) = nextHandle s"
  by (simp_all add: runProjectPins_def split: sum.splits)

lemma animate_fields [simp]:
  "scene (animate lib s) = scene s"
  "container (animate lib s) = container s"
  "containerRef (animate lib s) = containerRef s"
  "renders (renderer (animate lib s)) = Suc (renders (renderer s))"
  "canvasInContainer (animate lib s) = canvasInContainer s"
  "observing (animate lib s) = observing s"
  "dblclickListener (animate lib s) = dblclickListener s"
  "pinsRef (animate lib s) = pinsRef s"
  "isLoading (animate lib s) = isLoading s"
  "loadError (animate lib s) = loadError s"
  "requests (animate lib s) = requests s"
  "calls (animate lib s) = calls s"
  "scheduledFrame (animate lib s) = Some (nextHandle s)"
  "animFrameRef (animate lib s) = nextHandle s"
  by (simp_all add: animate_def)

lemma handleResize_fields [simp]:
  "scene (handleResize s) = scene s"
  "container (handleResize s) = container s"
  "containerRef (handleResize s) = containerRef s"
  "controls (handleResize s) = controls s"
  "renders (renderer (handleResize s)) = renders (renderer s)"
  "canvasInContainer (handleResize s) = canvasInContainer s"
  "observing (handleResize s) = observing s"
  "dblclickListener (handleResize s) = dblclickListener s"
  "pinsRef (handleResize s) = pinsRef s"
  "projected (handleResize s) = projected s"
  "isLoading (handleResize s) = isLoading s"
  "loadError (handleResize s) = loadError s"
  "requests (handleResize s) = requests s"
  "calls (handleResize s) = calls s"
  "uncaught (handleResize s) = uncaught s"
  "scheduledFrame (handleResize s) = scheduledFrame s"
  "animFrameRef (handleResize s) = animFrameRef s"
  "nextHandle (handleResize s) = nextHandle s"
  by (simp_all add: handleResize_def Let_def)

lemma hostResized_fields [simp]:
  "scene (hostResized w h s) = scene s"
  "containerRef (hostResized w h s) = containerRef s"
  "container (hostResized w h s) =
     \<lparr>clientWidth = w, clientHeight = h, rect_width = Num (real w), rect_height = Num (real h)\<rparr>"
  "controls (hostResized w h s) = controls s"
  "renders (renderer (hostResized w h s)) = renders (renderer s)"
  "canvasInContainer (hostResized w h s) = canvasInContainer s"
  "observing (hostResized w h s) = observing s"
  "dblclickListener (hostResized w h s) = dblclickListener s"
  "pinsRef (hostResized w h s) = pinsRef s"
  "projected (hostResized w h s) = projected s"
  "isLoading (hostResized w h s) = isLoading s"
  "loadError (hostResized w h s) = loadError s"
  "requests (hostResized w h s) = requests s"
  "calls (hostResized w h s) = calls s"
  "uncaught (hostResized w h s) = uncaught s"
  "scheduledFrame (hostResized w h s) = scheduledFrame s"
  "animFrameRef (hostResized w h s) = animFrameRef s"
  "nextHandle (hostResized w h s) = nextHandle s"
  by (simp_all add: hostResized_def Let_def)

lemma onLoad_fields [simp]:
  "scene (onLoad lib g s) = scene s @ [placeModel g]"
  "container (onLoad lib g s) = container s"
  "containerRef (onLoad lib g s) = containerRef s"
  "renderer (onLoad lib g s) = renderer s"
  "canvasInContainer (onLoad lib g s) = canvasInContainer s"
  "observing (onLoad lib g s) = observing s"
  "dblclickListener (onLoad lib g s) = dblclickListener s"
  "pinsRef (onLoad lib g s) = pinsRef s"
  "projected (onLoad lib g s) = projected s"
  "isLoading (onLoad lib g s) = False"
  "loadError (onLoad lib g s) = loadError s"
  "requests (onLoad lib g s) = requests s"
  "calls (onLoad lib g s) = calls s"
  "uncaught (onLoad lib g s) = uncaught s"
  "scheduledFrame (onLoad lib g s) = scheduledFrame s"
  "animFrameRef (onLoad lib g s) = animFrameRef s"
  "nextHandle (onLoad lib g s) = nextHandle s"
  by (simp_all add: onLoad_def Let_def)

lemma onError_fields [simp]:
  "scene (onError s) = scene s @ fallbackMeshes"
  "container (onError s) = container s"
  "containerRef (onError s) = containerRef s"
  "camera (onError s) = camera s"
  "controls (onError s) = controls s"
  "renderer (onError s) = renderer s"
  "canvasInContainer (onError s) = canvasInContainer s"
  "observing (onError s) = observing s"
  "dblclickListener (onError s) = dblclickListener s"
  "pinsRef (onError s) = pinsRef s"
  "projected (onError s) = projected s"
  "isLoading (onError s) = False"
  "loadError (onError s) = Some loadErrorMessage"
  "requests (onError s) = requests s"
  "calls (onError s) = calls s"
  "uncaught (onError s) = uncaught s"
  "scheduledFrame (onError s) = scheduledFrame s"
  "animFrameRef (onError s) = animFrameRef s"
  "nextHandle (onError s) = nextHandle s"
  by (simp_all add: onError_def buildFallbackModel_def)

lemma newSession_fields [simp]:
  "scene (newSession lib cont fileUrl pins previous)
     = (if truthy fileUrl then sceneLights else sceneLights @ fallbackMeshes)"
  "container (newSession lib cont fileUrl pins previous) = cont"
  "containerRef (newSession lib cont fileUrl pins previous)"
  "canvasInContainer (newSession lib cont fileUrl pins previous)"
  "observing (newSession lib cont fileUrl pins previous)"
  "dblclickListener (newSession lib cont fileUrl pins previous)"
  "pinsRef (newSession lib cont fileUrl pins previous) = pins"
  "isLoading (newSession lib cont fileUrl pins previous) = truthy fileUrl"
  "loadError (newSession lib cont fileUrl pins previous) = None"
  "requests (newSession lib cont fileUrl pins previous)
     = (case fileUrl of None \<Rightarrow> [] | Some u \<Rightarrow> if u = [] then [] else [u])"
  "calls (newSession lib cont fileUrl pins previous) = []"
  "scheduledFrame (newSession lib cont fileUrl pins previous) = Some 1"
  "animFrameRef (newSession lib cont fileUrl pins previous) = 1"
  "renders (renderer (newSession lib cont fileUrl pins previous)) = 1"
  by (simp_all add: newSession_def Let_def buildFallbackModel_def split: prod.splits)

section \<open>Load failure and the missing URL\<close>


section \<open>Teardown, once and twice\<close>





section \<open>Teardown and the asset load\<close>

lemma step_keeps_loop:
  "scheduledFrame s = Some (animFrameRef s) \<Longrightarrow>
   scheduledFrame (step lib s e) = Some (animFrameRef (step lib s e))"
  by (cases e) (simp_all add: displayRefresh_def)

lemma step_observing: "observing (step lib s e) = observing s"
  by (cases e) (simp_all add: displayRefresh_def split: option.splits)

lemma step_containerRef: "containerRef (step lib s e) = containerRef s"
  by (cases e) (simp_all add: displayRefresh_def split: option.splits)

lemma run_invariant:
  "scheduledFrame (run lib (newSession lib' cont fileUrl pins previous) events)
     = Some (animFrameRef (run lib (newSession lib' cont fileUrl pins previous) events))
   \<and> observing (run lib (newSession lib' cont fileUrl pins previous) events)
   \<and> containerRef (run lib (newSession lib' cont fileUrl pins previous) events)"
proof (induction events rule: rev_induct)
  case Nil
  show ?case by (simp add: run_def)
next
  case (snoc e events)
  then show ?case
    by (simp add: run_def step_keeps_loop step_observing step_containerRef)
qed



section \<open>The library instance\<close>

lemma updateProjectionMatrix_fields [simp]:
  "position (updateProjectionMatrix cam) = position cam"
  "quaternion (updateProjectionMatrix cam) = quaternion cam"
  "fov (updateProjectionMatrix cam) = fov cam"
  "aspect (updateProjectionMatrix cam) = aspect cam"
  "near (updateProjectionMatrix cam) = near cam"
  "far (updateProjectionMatrix cam) = far cam"
  "zoom (updateProjectionMatrix cam) = zoom cam"
  by (simp_all add: updateProjectionMatrix_def Let_def)

lemma PerspectiveCamera_fields [simp]:
  "fov (PerspectiveCamera f a n fr) = f"
  "aspect (PerspectiveCamera f a n fr) = a"
  "near (PerspectiveCamera f a n fr) = n"
  "far (PerspectiveCamera f a n fr) = fr"
  "zoom (PerspectiveCamera f a n fr) = Num 1"
  by (simp_all add: PerspectiveCamera_def)

lemma lookAtTarget_fields [simp]:
  "position (lookAtTarget cam tgt) = position cam"
  "fov (lookAtTarget cam tgt) = fov cam"
  "aspect (lookAtTarget cam tgt) = aspect cam"
  "near (lookAtTarget cam tgt) = near cam"
  "far (lookAtTarget cam tgt) = far cam"
  "zoom (lookAtTarget cam tgt) = zoom cam"
  "projectionMatrix (lookAtTarget cam tgt) = projectionMatrix cam"
  by (simp_all add: lookAtTarget_def)

lemma worldInverse_fields [simp]:
  "position (worldInverse cam) = position cam"
  "quaternion (worldInverse cam) = quaternion cam"
  "fov (worldInverse cam) = fov cam"
  "aspect (worldInverse cam) = aspect cam"
  "near (worldInverse cam) = near cam"
  "far (worldInverse cam) = far cam"
  "zoom (worldInverse cam) = zoom cam"
  "projectionMatrix (worldInverse cam) = projectionMatrix cam"
  by (simp_all add: worldInverse_def Let_def)

lemma autoRotateStep_fields [simp]:
  "fst (autoRotateStep ctl cam) = ctl"
  "fov (snd (autoRotateStep ctl cam)) = fov cam"
  "aspect (snd (autoRotateStep ctl cam)) = aspect cam"
  "near (snd (autoRotateStep ctl cam)) = near cam"
  "far (snd (autoRotateStep ctl cam)) = far cam"
  "zoom (snd (autoRotateStep ctl cam)) = zoom cam"
  "projectionMatrix (snd (autoRotateStep ctl cam)) = projectionMatrix cam"
  by (simp_all add: autoRotateStep_def Let_def)

lemma orbitStep_eq:
  "orbitStep ctl cam = (ctl, lookAtTarget (snd (autoRotateStep ctl cam)) (target ctl))"
  by (cases "autoRotateStep ctl cam") (use autoRotateStep_fields(1) [of ctl cam] in \<open>simp add: orbitStep_def\<close>)

lemma turn_keeps_radius:
  fixes a c s k :: real
  assumes "s * s + k * k = 1"
  shows "(a * k - c * s) * (a * k - c * s) + (c * k + a * s) * (c * k + a * s) = a * a + c * c"
proof -
  have "(a * k - c * s) * (a * k - c * s) + (c * k + a * s) * (c * k + a * s)
      = (a * a + c * c) * (s * s + k * k)"
    by (simp add: algebra_simps)
  then show ?thesis by (simp add: assms)
qed

lemma onOrbit_autoRotateStep:
  assumes "onOrbit cam" and "target ctl = origin"
    and "autoRotateSpeed ctl = Num v" and "dampingFactor ctl = Num d"
  shows "onOrbit (snd (autoRotateStep ctl cam))"
proof -
  from assms(1) obtain a c where p: "position cam = Vector3 (Num a) (Num 2) (Num c)"
    and ac: "a * a + c * c = 25"
    by (auto simp: onOrbit_def split: vector3.splits number.splits)
  have rot: "(a * cos t - c * sin t) * (a * cos t - c * sin t)
           + (c * cos t + a * sin t) * (c * cos t + a * sin t) = 25" for t
    using turn_keeps_radius [of "sin t" "cos t" a c] sin_cos_squared_add [of t]
    by (simp add: power2_eq_square ac)
  show ?thesis
    using rot ac
    by (simp add: autoRotateStep_def Let_def onOrbit_def p assms(2-4) origin_def sub_def
        addVectors_def number_ops)
qed

lemma sqrt29: "0 < sqrt 29" "sqrt 29 * sqrt 29 = 29" "sqrt 29 \<noteq> 0"
  by simp_all

lemma lookAtAxes_onOrbit:
  assumes ac: "a * a + c * c = 25"
  shows "lookAtAxes (Vector3 (Num a) (Num 2) (Num c)) origin (Vector3 (Num 0) (Num 1) (Num 0))
       = Rotation (Vector3 (Num (c / 5)) (Num 0) (Num (- (a / 5))))
           (Vector3 (Num (- (2 * a / (5 * sqrt 29)))) (Num (5 / sqrt 29))
              (Num (- (2 * c / (5 * sqrt 29)))))
           (Vector3 (Num (a / sqrt 29)) (Num (2 / sqrt 29)) (Num (c / sqrt 29)))"
proof -
  let ?l = "sqrt 29"
  let ?up = "Vector3 (Num 0) (Num 1) (Num 0)"
  let ?z0 = "Vector3 (Num a) (Num 2) (Num c)"
  let ?z1 = "Vector3 (Num (a / ?l)) (Num (2 / ?l)) (Num (c / ?l))"
  let ?x1 = "Vector3 (Num (c / ?l)) (Num 0) (Num (- (a / ?l)))"
  let ?x2 = "Vector3 (Num (c / 5)) (Num 0) (Num (- (a / 5)))"
  let ?y = "Vector3 (Num (- (2 * a / (5 * ?l)))) (Num (5 / ?l)) (Num (- (2 * c / (5 * ?l))))"
  have a29: "a * a + 4 + c * c = 29" using ac by simp
  have z0: "sub ?z0 origin = ?z0"
    by (simp add: sub_def origin_def number_ops)
  have lz0: "lengthSq ?z0 = Num 29"
    using a29 by (simp add: lengthSq_def number_ops)
  have z1: "normalizeVector ?z0 = ?z1"
    using lz0 by (simp add: normalizeVector_def multiplyScalar_def number_ops)
  have x1: "crossVectors ?up ?z1 = ?x1"
    by (simp add: crossVectors_def number_ops)
  have "c / ?l * (c / ?l) + a / ?l * (a / ?l) = (a * a + c * c) / (?l * ?l)"
    by (simp add: add_divide_distrib)
  then have sq: "c / ?l * (c / ?l) + a / ?l * (a / ?l) = 25 / 29"
    by (simp add: ac)
  have lx1: "lengthSq ?x1 = Num (25 / 29)"
    using sq by (simp add: lengthSq_def number_ops)
  have s: "sqrt (25 / 29) = 5 / ?l"
  proof -
    have "sqrt (25 / 29) = sqrt 25 / ?l" by (rule real_sqrt_divide)
    moreover have "sqrt 25 = 5" by (rule real_sqrt_unique) simp_all
    ultimately show ?thesis by simp
  qed
  have x2: "normalizeVector ?x1 = ?x2"
    using lx1 s by (simp add: normalizeVector_def multiplyScalar_def number_ops)
  have "c / ?l * (c / 5) + a / ?l * (a / 5) = (a * a + c * c) / (5 * ?l)"
    by (simp add: add_divide_distrib)
  then have mid: "c / ?l * (c / 5) + a / ?l * (a / 5) = 5 / ?l"
    by (simp add: ac)
  have y: "crossVectors ?z1 ?x2 = ?y"
    using mid by (simp add: crossVectors_def number_ops)
  show ?thesis
    by (simp add: lookAtAxes_def Let_def z0 lz0 z1 x1 lx1 x2 y)
qed

lemma dot_axes_position:
  assumes ac: "a * a + c * c = 25"
  shows "dot (Vector3 (Num (c / 5)) (Num 0) (Num (- (a / 5)))) (Vector3 (Num a) (Num 2) (Num c))
           = Num 0"
    and "dot (Vector3 (Num (- (2 * a / (5 * sqrt 29)))) (Num (5 / sqrt 29))
               (Num (- (2 * c / (5 * sqrt 29))))) (Vector3 (Num a) (Num 2) (Num c)) = Num 0"
    and "dot (Vector3 (Num (a / sqrt 29)) (Num (2 / sqrt 29)) (Num (c / sqrt 29)))
             (Vector3 (Num a) (Num 2) (Num c)) = Num (sqrt 29)"
proof -
  let ?l = "sqrt 29"
  have "2 * c * c = 50 - 2 * (a * a)"
    by (simp only: mult.assoc) (use ac in linarith)
  then have "2 * c * c / (5 * ?l) = (50 - 2 * (a * a)) / (5 * ?l)"
    by (simp only:)
  also have "\<dots> = 10 / ?l - 2 * a * a / (5 * ?l)"
    by (simp add: diff_divide_distrib)
  finally have ry: "10 / ?l - 2 * a * a / (5 * ?l) = 2 * c * c / (5 * ?l)" by simp
  have "a * a / ?l + 4 / ?l + c * c / ?l = (a * a + 4 + c * c) / ?l"
    by (simp add: add_divide_distrib)
  also have "\<dots> = 29 / ?l" using ac by simp
  also have "\<dots> = ?l" by (simp add: real_div_sqrt)
  finally have rz: "a * a / ?l + 4 / ?l + c * c / ?l = ?l" .
  show "dot (Vector3 (Num (c / 5)) (Num 0) (Num (- (a / 5)))) (Vector3 (Num a) (Num 2) (Num c))
           = Num 0"
    by (simp add: dot_def number_ops)
  show "dot (Vector3 (Num (- (2 * a / (5 * ?l)))) (Num (5 / ?l))
               (Num (- (2 * c / (5 * ?l))))) (Vector3 (Num a) (Num 2) (Num c)) = Num 0"
    using ry by (simp add: dot_def number_ops)
  show "dot (Vector3 (Num (a / ?l)) (Num (2 / ?l)) (Num (c / ?l)))
             (Vector3 (Num a) (Num 2) (Num c)) = Num ?l"
    using rz by (simp add: dot_def number_ops)
qed

lemma worldInverse_onOrbit:
  assumes "onOrbit cam"
  shows "\<exists>a c. a * a + c * c = 25 \<and>
    matrixWorldInverse (worldInverse (lookAtTarget cam origin))
      = \<lparr>e0 = Num (c / 5), e1 = Num (- (2 * a / (5 * sqrt 29))), e2 = Num (a / sqrt 29), e3 = Num 0,
         e4 = Num 0, e5 = Num (5 / sqrt 29), e6 = Num (2 / sqrt 29), e7 = Num 0,
         e8 = Num (- (a / 5)), e9 = Num (- (2 * c / (5 * sqrt 29))), e10 = Num (c / sqrt 29),
         e11 = Num 0,
         e12 = Num 0, e13 = Num 0, e14 = Num (- sqrt 29), e15 = Num 1\<rparr>"
proof -
  from assms obtain a c where p: "position cam = Vector3 (Num a) (Num 2) (Num c)"
    and ac: "a * a + c * c = 25"
    by (auto simp: onOrbit_def split: vector3.splits number.splits)
  let ?l = "sqrt 29"
  have q: "quaternion (lookAtTarget cam origin)
      = Rotation (Vector3 (Num (c / 5)) (Num 0) (Num (- (a / 5))))
           (Vector3 (Num (- (2 * a / (5 * ?l)))) (Num (5 / ?l)) (Num (- (2 * c / (5 * ?l)))))
           (Vector3 (Num (a / ?l)) (Num (2 / ?l)) (Num (c / ?l)))"
    unfolding lookAtTarget_def p using lookAtAxes_onOrbit [OF ac] by simp
  have "matrixWorldInverse (worldInverse (lookAtTarget cam origin))
      = \<lparr>e0 = Num (c / 5), e1 = Num (- (2 * a / (5 * ?l))), e2 = Num (a / ?l), e3 = Num 0,
         e4 = Num 0, e5 = Num (5 / ?l), e6 = Num (2 / ?l), e7 = Num 0,
         e8 = Num (- (a / 5)), e9 = Num (- (2 * c / (5 * ?l))), e10 = Num (c / ?l), e11 = Num 0,
         e12 = Num 0, e13 = Num 0, e14 = Num (- ?l), e15 = Num 1\<rparr>"
    by (simp add: worldInverse_def Let_def q p dot_axes_position [OF ac] number_ops)
  with ac show ?thesis by blast
qed

lemma camera_space_origin:
  assumes "onOrbit cam"
  shows "applyMatrix4 origin (matrixWorldInverse (worldInverse (lookAtTarget cam origin)))
       = Vector3 (Num 0) (Num 0) (Num (- sqrt 29))"
proof -
  from worldInverse_onOrbit [OF assms] obtain a c :: real
    where m: "matrixWorldInverse (worldInverse (lookAtTarget cam origin))
      = \<lparr>e0 = Num (c / 5), e1 = Num (- (2 * a / (5 * sqrt 29))), e2 = Num (a / sqrt 29), e3 = Num 0,
         e4 = Num 0, e5 = Num (5 / sqrt 29), e6 = Num (2 / sqrt 29), e7 = Num 0,
         e8 = Num (- (a / 5)), e9 = Num (- (2 * c / (5 * sqrt 29))), e10 = Num (c / sqrt 29),
         e11 = Num 0,
         e12 = Num 0, e13 = Num 0, e14 = Num (- sqrt 29), e15 = Num 1\<rparr>"
    by blast
  show ?thesis
    by (simp only: m) (simp add: applyMatrix4_def origin_def Let_def number_ops)
qed

text \<open>The point two units above the origin, in the space of such a camera.\<close>

lemma camera_space_raised:
  assumes "onOrbit cam"
  shows "applyMatrix4 (Vector3 (Num 0) (Num 2) (Num 0))
           (matrixWorldInverse (worldInverse (lookAtTarget cam origin)))
       = Vector3 (Num 0) (Num (10 / sqrt 29)) (Num (- (25 / sqrt 29)))"
proof -
  from worldInverse_onOrbit [OF assms] obtain a c :: real
    where m: "matrixWorldInverse (worldInverse (lookAtTarget cam origin))
      = \<lparr>e0 = Num (c / 5), e1 = Num (- (2 * a / (5 * sqrt 29))), e2 = Num (a / sqrt 29), e3 = Num 0,
         e4 = Num 0, e5 = Num (5 / sqrt 29), e6 = Num (2 / sqrt 29), e7 = Num 0,
         e8 = Num (- (a / 5)), e9 = Num (- (2 * c / (5 * sqrt 29))), e10 = Num (c / sqrt 29),
         e11 = Num 0,
         e12 = Num 0, e13 = Num 0, e14 = Num (- sqrt 29), e15 = Num 1\<rparr>"
    by blast
  have "29 / sqrt 29 = sqrt 29"
    by (simp add: real_div_sqrt)
  then have "4 / sqrt 29 - sqrt 29 = 4 / sqrt 29 - 29 / sqrt 29"
    by (simp only:)
  also have "\<dots> = (4 - 29) / sqrt 29"
    by (simp only: diff_divide_distrib)
  also have "\<dots> = - (25 / sqrt 29)"
    by simp
  finally have z: "4 / sqrt 29 - sqrt 29 = - (25 / sqrt 29)" .
  show ?thesis
    using z by (simp only: m) (simp add: applyMatrix4_def Let_def number_ops)
qed

section \<open>The viewer's projection\<close>

lemma tanHalfFov_pos: "0 < tanHalfFov"
  unfolding tanHalfFov_def
proof (rule tan_gt_zero)
  show "0 < DEG2RAD * 45 / 2" by (simp add: DEG2RAD_def)
  have "DEG2RAD * 45 / 2 = pi * (1 / 8)" by (simp add: DEG2RAD_def)
  also have "\<dots> < pi * (1 / 2)" by (rule mult_strict_left_mono) simp_all
  finally show "DEG2RAD * 45 / 2 < pi / 2" by simp
qed

lemma viewerProjection_eq:
  assumes "viewerIntrinsics cam" and "aspect cam = Num r" and "0 < r"
  shows "projectionMatrix (updateProjectionMatrix cam) = viewerProjection r"
proof -
  from assms(1) have i: "fov cam = Num 45" "near cam = Num 0.01" "far cam = Num 200"
    "zoom cam = Num 1"
    by (simp_all add: viewerIntrinsics_def)
  show ?thesis
    using tanHalfFov_pos assms(3)
    by (simp add: updateProjectionMatrix_def Let_def makePerspective_def viewerProjection_def
        i assms(2) number_ops tanHalfFov_def [symmetric])
qed

lemma applyMatrix4_viewerProjection:
  assumes "0 < r" and "c \<noteq> 0"
  shows "applyMatrix4 (Vector3 (Num a) (Num b) (Num c)) (viewerProjection r)
       = Vector3 (Num (a / (r * tanHalfFov * (- c)))) (Num (b / (tanHalfFov * (- c))))
           (Num (200.01 / 199.99 + 4 / (199.99 * c)))"
  using tanHalfFov_pos assms
  by (simp add: applyMatrix4_def viewerProjection_def Let_def number_ops field_simps)

lemma tanHalfFov_bound: "2 / 5 \<le> tanHalfFov"
proof -
  let ?t = "tan (pi / 8)"
  have t: "tanHalfFov = ?t"
    by (simp add: tanHalfFov_def DEG2RAD_def)
  have c8: "cos (pi / 8) \<noteq> 0"
    by (rule cos_gt_zero_pi [THEN less_imp_neq, symmetric]) simp_all
  have c4: "cos (2 * (pi / 8)) \<noteq> 0"
    by (simp add: cos_45)
  from tan_double [OF c8 c4] have d: "1 = 2 * ?t / (1 - ?t\<^sup>2)"
    by (simp add: tan_45)
  then have ne: "1 - ?t\<^sup>2 \<noteq> 0"
    by auto
  with d have e: "1 - ?t\<^sup>2 = 2 * ?t"
    by (simp add: field_simps)
  have pos: "0 < ?t"
    using tanHalfFov_pos by (simp add: t)
  show ?thesis
  proof (rule ccontr)
    assume "\<not> 2 / 5 \<le> tanHalfFov"
    then have less: "?t < 2 / 5" by (simp add: t)
    with pos have "?t * ?t < 2 / 5 * (2 / 5)"
      by (intro mult_strict_mono) simp_all
    then have "?t\<^sup>2 < 4 / 25"
      by (simp add: power2_eq_square)
    with e less show False by simp
  qed
qed

section \<open>The camera of a session under the library instance\<close>

lemma camera_animate:
  "camera (animate lib s) = updateMatrixWorld lib (snd (orbitUpdate lib (controls s) (camera s)))"
  "controls (animate lib s) = fst (orbitUpdate lib (controls s) (camera s))"
  by (simp_all add: animate_def controlsUpdate_def split: prod.splits)

lemma animate_exampleThree:
  "camera (animate exampleThree s)
     = worldInverse (lookAtTarget (snd (autoRotateStep (controls s) (camera s))) (target (controls s)))"
  "controls (animate exampleThree s) = controls s"
  by (simp_all add: camera_animate exampleThree_def orbitStep_eq)

lemma displayRefresh_exampleThree:
  assumes "scheduledFrame s = Some k"
  shows "camera (displayRefresh exampleThree s)
     = worldInverse (lookAtTarget (snd (autoRotateStep (controls s) (camera s))) (target (controls s)))"
    and "controls (displayRefresh exampleThree s) = controls s"
  using assms by (simp_all add: displayRefresh_def animate_exampleThree)

lemma newSession_exampleThree:
  "camera (newSession exampleThree cont fileUrl pins previous)
     = worldInverse (lookAtTarget (snd (autoRotateStep viewerControls (startCamera cont))) origin)"
  "controls (newSession exampleThree cont fileUrl pins previous) = viewerControls"
proof -
  have oc: "OrbitControls exampleThree cam
      = (\<lparr>target = origin, enableDamping = False, dampingFactor = Num 0.05,
          minDistance = Num 0, maxDistance = PosInfinity,
          autoRotate = False, autoRotateSpeed = Num 2\<rparr>, lookAtTarget cam origin)" for cam
    by (simp add: OrbitControls_def exampleThree_def orbitStep_eq autoRotateStep_def)
  have la: "lookAt exampleThree = lookAtTarget"
    by (simp add: exampleThree_def)
  show "camera (newSession exampleThree cont fileUrl pins previous)
     = worldInverse (lookAtTarget (snd (autoRotateStep viewerControls (startCamera cont))) origin)"
    by (simp add: newSession_def Let_def oc la animate_exampleThree viewerControls_def
        startCamera_def)
  show "controls (newSession exampleThree cont fileUrl pins previous) = viewerControls"
    by (simp add: newSession_def Let_def oc la animate_exampleThree viewerControls_def)
qed

lemma camera_hostResized:
  "observing s \<Longrightarrow>
   camera (hostResized w h s)
     = updateProjectionMatrix ((camera s)\<lparr>aspect := Num (real w) / Num (real h)\<rparr>)"
  by (simp add: hostResized_def handleResize_def Let_def)

lemma onOrbit_position: "position cam' = position cam \<Longrightarrow> onOrbit cam' = onOrbit cam"
  by (simp add: onOrbit_def)

lemma viewerIntrinsics_fields:
  "fov cam' = fov cam \<Longrightarrow> near cam' = near cam \<Longrightarrow> far cam' = far cam \<Longrightarrow> zoom cam' = zoom cam
   \<Longrightarrow> viewerIntrinsics cam' = viewerIntrinsics cam"
  by (simp add: viewerIntrinsics_def)

lemma startCamera_facts:
  "onOrbit (startCamera cont)"
  "viewerIntrinsics (startCamera cont)"
  "0 < clientWidth cont \<Longrightarrow> 0 < clientHeight cont \<Longrightarrow>
   projectionMatrix (startCamera cont)
     = viewerProjection (real (clientWidth cont) / real (clientHeight cont))"
proof -
  show "onOrbit (startCamera cont)"
    by (simp add: startCamera_def onOrbit_def)
  show "viewerIntrinsics (startCamera cont)"
    by (simp add: startCamera_def viewerIntrinsics_def)
  assume "0 < clientWidth cont" "0 < clientHeight cont"
  then show "projectionMatrix (startCamera cont)
     = viewerProjection (real (clientWidth cont) / real (clientHeight cont))"
    by (simp add: startCamera_def PerspectiveCamera_def viewerProjection_eq viewerIntrinsics_def
        number_ops)
qed

lemma viewerControls_fields:
  "target viewerControls = origin" "autoRotateSpeed viewerControls = Num 0.5"
  "dampingFactor viewerControls = Num 0.08"
  by (simp_all add: viewerControls_def)

text \<open>
  One turn of the controls and one refresh of the world matrices take a camera on the orbit
  to a camera on the orbit that sees the origin straight ahead, at the distance
  \<open>sqrt 29\<close>.
\<close>

lemma framed_camera:
  assumes "onOrbit cam" and "ctl = viewerControls"
  defines "cam' \<equiv> worldInverse (lookAtTarget (snd (autoRotateStep ctl cam)) (target ctl))"
  shows "onOrbit cam'"
    and "applyMatrix4 origin (matrixWorldInverse cam') = Vector3 (Num 0) (Num 0) (Num (- sqrt 29))"
    and "projectionMatrix cam' = projectionMatrix cam"
    and "viewerIntrinsics cam' = viewerIntrinsics cam"
    and "applyMatrix4 (Vector3 (Num 0) (Num 2) (Num 0)) (matrixWorldInverse cam')
       = Vector3 (Num 0) (Num (10 / sqrt 29)) (Num (- (25 / sqrt 29)))"
proof -
  have o: "onOrbit (snd (autoRotateStep ctl cam))"
    using assms(1)
    by (rule onOrbit_autoRotateStep [where v = "0.5" and d = "0.08"])
      (simp_all add: assms(2) viewerControls_fields)
  then show "onOrbit cam'"
    by (simp add: cam'_def onOrbit_position [of "worldInverse _"] onOrbit_position [of "lookAtTarget _ _"])
  show "applyMatrix4 origin (matrixWorldInverse cam') = Vector3 (Num 0) (Num 0) (Num (- sqrt 29))"
    using camera_space_origin [OF o] by (simp add: cam'_def assms(2) viewerControls_fields)
  show "projectionMatrix cam' = projectionMatrix cam"
    by (simp add: cam'_def)
  show "viewerIntrinsics cam' = viewerIntrinsics cam"
    by (simp add: cam'_def viewerIntrinsics_def)
  show "applyMatrix4 (Vector3 (Num 0) (Num 2) (Num 0)) (matrixWorldInverse cam')
       = Vector3 (Num 0) (Num (10 / sqrt 29)) (Num (- (25 / sqrt 29)))"
    using camera_space_raised [OF o] by (simp add: cam'_def assms(2) viewerControls_fields)
qed

lemma sqrt29_less: "sqrt 29 < 200"
  by (rule real_less_lsqrt) simp_all

lemma project_origin_framed:
  assumes "applyMatrix4 origin (matrixWorldInverse cam) = Vector3 (Num 0) (Num 0) (Num (- sqrt 29))"
    and "projectionMatrix cam = viewerProjection r" and "0 < r"
  shows "project origin cam
       = Vector3 (Num 0) (Num 0) (Num (200.01 / 199.99 + 4 / (199.99 * (- sqrt 29))))"
  using assms(3) by (simp add: project_def assms(1,2) applyMatrix4_viewerProjection)

lemma depth_origin_framed: "200.01 / 199.99 + 4 / (199.99 * (- sqrt 29)) < (1::real)"
proof -
  have "0 < sqrt 29" by simp
  then show ?thesis
    using sqrt29_less by (simp add: field_simps)
qed

lemma project_raised_framed:
  assumes "applyMatrix4 (Vector3 (Num 0) (Num 2) (Num 0)) (matrixWorldInverse cam)
       = Vector3 (Num 0) (Num (10 / sqrt 29)) (Num (- (25 / sqrt 29)))"
    and "projectionMatrix cam = viewerProjection r" and "0 < r"
  shows "project (Vector3 (Num 0) (Num 2) (Num 0)) cam
       = Vector3 (Num 0) (Num (2 / (5 * tanHalfFov)))
           (Num (200.01 / 199.99 + 4 / (199.99 * (- (25 / sqrt 29)))))"
proof -
  have "10 / sqrt 29 / (tanHalfFov * (25 / sqrt 29)) = 2 / (5 * tanHalfFov)"
    using tanHalfFov_pos by (simp add: field_simps)
  then show ?thesis
    using assms(3) by (simp add: project_def assms(1,2) applyMatrix4_viewerProjection)
qed

lemma depth_raised_framed: "200.01 / 199.99 + 4 / (199.99 * (- (25 / sqrt 29))) < (1::real)"
proof -
  have "1 < sqrt 29" by simp
  then have "1 < 8 * sqrt 29" by linarith
  then show ?thesis
    by (simp add: field_simps)
qed

lemma exampleSession_camera:
  "onOrbit (camera exampleSession)"
  "viewerIntrinsics (camera exampleSession)"
  "projectionMatrix (camera exampleSession) = viewerProjection (4 / 3)"
  "applyMatrix4 origin (matrixWorldInverse (camera exampleSession))
     = Vector3 (Num 0) (Num 0) (Num (- sqrt 29))"
  "controls exampleSession = viewerControls"
  "applyMatrix4 (Vector3 (Num 0) (Num 2) (Num 0)) (matrixWorldInverse (camera exampleSession))
     = Vector3 (Num 0) (Num (10 / sqrt 29)) (Num (- (25 / sqrt 29)))"
proof -
  have c: "camera exampleSession
      = worldInverse (lookAtTarget (snd (autoRotateStep viewerControls (startCamera exampleContainer)))
          (target viewerControls))"
    by (simp add: exampleSession_def newSession_exampleThree viewerControls_fields)
  note f = framed_camera [OF startCamera_facts(1) refl, of exampleContainer, folded c]
  show "onOrbit (camera exampleSession)" by (rule f(1))
  show "applyMatrix4 origin (matrixWorldInverse (camera exampleSession))
     = Vector3 (Num 0) (Num 0) (Num (- sqrt 29))" by (rule f(2))
  show "viewerIntrinsics (camera exampleSession)"
    by (simp add: f(4) startCamera_facts(2))
  have "projectionMatrix (startCamera exampleContainer) = viewerProjection (800 / 600)"
    using startCamera_facts(3) [of exampleContainer] by (simp add: exampleContainer_def)
  then show "projectionMatrix (camera exampleSession) = viewerProjection (4 / 3)"
    by (simp add: f(3))
  show "controls exampleSession = viewerControls"
    by (simp add: exampleSession_def newSession_exampleThree)
  show "applyMatrix4 (Vector3 (Num 0) (Num 2) (Num 0)) (matrixWorldInverse (camera exampleSession))
     = Vector3 (Num 0) (Num (10 / sqrt 29)) (Num (- (25 / sqrt 29)))" by (rule f(5))
qed

section \<open>The projection formula\<close>

lemma times_reciprocal: "a * (Num 1 / w) = a / (w::number)"
  by (cases a; cases w) (auto simp: number_ops)

lemma applyMatrix4_homogeneousDivide: "applyMatrix4 v m = homogeneousDivide m v"
  by (simp add: applyMatrix4_def homogeneousDivide_def Let_def times_reciprocal)

lemma project_normalizedDeviceCoordinates: "project g cam = normalizedDeviceCoordinates cam g"
  by (simp add: project_def normalizedDeviceCoordinates_def applyMatrix4_homogeneousDivide)

lemma less_one_iff: "(z < Num 1) = (\<not> (Num 1 \<le> z \<or> z = NaN))"
  by (cases z) (auto simp: number_ops)

lemma projectPin_amended:
  "geometry p = Some g \<Longrightarrow> projectPin cam rect p = Inr (amendedProjectedPin cam rect p g)"
  by (simp add: projectPin_def amendedProjectedPin_def Let_def less_one_iff
      project_normalizedDeviceCoordinates)

lemma map_throwing_amended:
  "map geometry pins = map Some gs \<Longrightarrow>
   map_throwing (projectPin cam rect) pins = Inr (map2 (amendedProjectedPin cam rect) pins gs)"
proof (induction pins arbitrary: gs)
  case Nil
  then show ?case by simp
next
  case (Cons p ps)
  then obtain g gs' where gs: "gs = g # gs'" by (cases gs) auto
  with Cons.prems have "geometry p = Some g" "map geometry ps = map Some gs'"
    by auto
  then show ?case
    using Cons.IH [of gs'] by (simp add: gs projectPin_amended)
qed

text \<open>
  C1, as the code has it. With a camera and a host surface in place, one projection pass
  turns every pin, in order, into this projected pin: the position goes to normalized
  device coordinates \<open>ndc\<close> through the camera (into camera space, then through the
  projection matrix, each time divided by the fourth homogeneous coordinate), the pixel
  coordinates are \<open>(ndc_x * 0.5 + 0.5) * width\<close> and \<open>(- ndc_y * 0.5 + 0.5) * height\<close>,
  and the pin is invisible exactly when the depth \<open>ndc_z\<close> is at least 1 or is NaN.
\<close>

theorem projectPins_formula:
  assumes "map geometry pins = map Some gs"
  shows "projectPins (Some cam) (Some rect) pins
       = Inr (map2 (amendedProjectedPin cam rect) pins gs)"
  using map_throwing_amended [OF assms] by (simp add: projectPins_as_map)

lemma ndc_exampleSession:
  "normalizedDeviceCoordinates (camera exampleSession) (Vector3 (Num 0) (Num 0) (Num 0))
     = Vector3 (Num 0) (Num 0) (Num (200.01 / 199.99 + 4 / (199.99 * (- sqrt 29))))"
  "normalizedDeviceCoordinates (camera exampleSession) (Vector3 (Num 0) (Num 2) (Num 0))
     = Vector3 (Num 0) (Num (2 / (5 * tanHalfFov)))
         (Num (200.01 / 199.99 + 4 / (199.99 * (- (25 / sqrt 29)))))"
  using project_origin_framed [OF exampleSession_camera(4) exampleSession_camera(3)]
    project_raised_framed [OF exampleSession_camera(6) exampleSession_camera(3)]
  by (simp_all add: project_normalizedDeviceCoordinates origin_def)

text \<open>
  The camera of the example session looks at the origin from the distance \<open>sqrt 29\<close>, on
  a surface of 800 by 600: the pin at the origin lands in the middle of the surface, the
  pin two units above it near the upper edge.
\<close>

theorem projectPins_formula_witness:
  "projectPins (Some (camera exampleSession)) (Some exampleContainer) [originPin, raisedPin]
   = Inr [\<lparr>pin = originPin, x = Num 400, y = Num 300, visible = True\<rparr>,
          \<lparr>pin = raisedPin, x = Num 400, y = Num (300 - 120 / tanHalfFov), visible = True\<rparr>]"
proof -
  have g: "map geometry [originPin, raisedPin]
      = map Some [Vector3 (Num 0) (Num 0) (Num 0), Vector3 (Num 0) (Num 2) (Num 0)]"
    by (simp add: originPin_def raisedPin_def examplePin_def)
  have o: "amendedProjectedPin (camera exampleSession) exampleContainer originPin
          (Vector3 (Num 0) (Num 0) (Num 0))
      = \<lparr>pin = originPin, x = Num 400, y = Num 300, visible = True\<rparr>"
    using depth_origin_framed
    by (simp add: amendedProjectedPin_def ndc_exampleSession exampleContainer_def number_ops)
  have "(- (2 / (5 * tanHalfFov)) * 0.5 + 0.5) * 600 = 300 - 120 / tanHalfFov"
    using tanHalfFov_pos by (simp add: field_simps)
  then have r: "amendedProjectedPin (camera exampleSession) exampleContainer raisedPin
          (Vector3 (Num 0) (Num 2) (Num 0))
      = \<lparr>pin = raisedPin, x = Num 400, y = Num (300 - 120 / tanHalfFov), visible = True\<rparr>"
    using depth_raised_framed
    by (simp add: amendedProjectedPin_def ndc_exampleSession exampleContainer_def number_ops)
  from projectPins_formula [OF g, of "camera exampleSession" exampleContainer] o r
  show ?thesis by simp
qed

text \<open>
  An asset without meshes has the empty bounding box: its size is 0, the scale
  \<open>3 / 0\<close> is infinite and the camera position \<open>0 * Infinity\<close> is NaN. From then on
  every depth is NaN: the pin is marked invisible although its depth is not at least 1.
\<close>

lemma add_NaN: "number_add a NaN = NaN" "number_add NaN a = NaN"
  by (cases a; simp)+

lemma mul_NaN: "number_mul a NaN = NaN" "number_mul NaN a = NaN"
  by (cases a; simp)+

lemma position_onLoad_emptyAsset:
  "position (camera (onLoad exampleThree emptyAsset s)) = Vector3 NaN NaN NaN"
proof -
  have size: "getSize (gltf_box emptyAsset) = origin"
    by (simp add: getSize_def isEmpty_def emptyAsset_def number_ops)
  have "position (snd (autoRotateStep ctl (cam\<lparr>position := Vector3 NaN NaN NaN\<rparr>)))
      = Vector3 NaN NaN NaN" for ctl cam
    by (simp add: autoRotateStep_def Let_def sub_def addVectors_def number_ops add_NaN)
  then show ?thesis
    by (simp add: onLoad_def Let_def size origin_def Math_max_def controlsUpdate_def
        exampleThree_def orbitStep_eq number_ops)
qed

lemma project_NaN_position:
  assumes "position cam = Vector3 NaN NaN NaN"
  shows "project g (worldInverse (lookAtTarget (snd (autoRotateStep ctl cam)) tgt))
       = Vector3 NaN NaN NaN"
proof -
  have "position (snd (autoRotateStep ctl cam)) = Vector3 NaN NaN NaN"
    by (simp add: autoRotateStep_def Let_def sub_def addVectors_def assms number_ops add_NaN)
  then have "applyMatrix4 g (matrixWorldInverse
                (worldInverse (lookAtTarget (snd (autoRotateStep ctl cam)) tgt)))
      = Vector3 NaN NaN NaN"
    by (simp add: worldInverse_def Let_def dot_def applyMatrix4_def number_ops add_NaN mul_NaN)
  then have "project g (worldInverse (lookAtTarget (snd (autoRotateStep ctl cam)) tgt))
      = applyMatrix4 (Vector3 NaN NaN NaN) (projectionMatrix
          (worldInverse (lookAtTarget (snd (autoRotateStep ctl cam)) tgt)))"
    by (simp only: project_def)
  then show ?thesis
    by (simp add: applyMatrix4_def Let_def number_ops add_NaN mul_NaN)
qed

lemma animate_projected:
  assumes "containerRef s"
    and "projectPins (Some (camera (animate lib s))) (Some (container s)) (pinsRef s) = Inr qs"
  shows "projected (animate lib s) = qs \<and> uncaught (animate lib s) = uncaught s"
proof -
  let ?t = "render lib (controlsUpdate lib (requestAnimationFrame s))"
  have cam: "camera (animate lib s) = camera ?t"
    by (simp add: animate_def)
  have "projectPins (Some (camera ?t)) (if containerRef ?t then Some (container ?t) else None)
          (pinsRef ?t) = Inr qs"
    using assms by (simp add: cam)
  then show ?thesis
    by (simp add: animate_def runProjectPins_def)
qed

theorem projectPins_formula_counterexample:
  "projected emptyLoadedSession = [\<lparr>pin = originPin, x = NaN, y = NaN, visible = False\<rparr>]
   \<and> specProjectedPin (camera emptyLoadedSession) (container emptyLoadedSession) originPin
         (Vector3 (Num 0) (Num 0) (Num 0))
       = \<lparr>pin = originPin, x = NaN, y = NaN, visible = True\<rparr>"
proof -
  let ?g = "Vector3 (Num 0) (Num 0) (Num 0)"
  let ?s = "(onLoad exampleThree emptyAsset exampleSession)\<lparr>scheduledFrame := None\<rparr>"
  have e: "emptyLoadedSession = animate exampleThree ?s"
    by (simp add: emptyLoadedSession_def run_def displayRefresh_def exampleSession_def)
  have p: "position (camera ?s) = Vector3 NaN NaN NaN"
    by (simp add: position_onLoad_emptyAsset)
  have ndc: "project ?g (camera (animate exampleThree ?s)) = Vector3 NaN NaN NaN"
    by (simp only: animate_exampleThree project_NaN_position [OF p])
  have pins: "pinsRef ?s = [originPin]" "container ?s = exampleContainer" "containerRef ?s"
    by (simp_all add: exampleSession_def originPin_def)
  have "projectPins (Some (camera (animate exampleThree ?s))) (Some (container ?s)) (pinsRef ?s)
      = Inr [\<lparr>pin = originPin, x = NaN, y = NaN, visible = False\<rparr>]"
    by (simp add: pins projectPins_def projectPin_def originPin_def examplePin_def Let_def ndc
        exampleContainer_def number_ops)
  with animate_projected [OF pins(3)]
  have "projected emptyLoadedSession = [\<lparr>pin = originPin, x = NaN, y = NaN, visible = False\<rparr>]"
    by (simp add: e)
  moreover have "specProjectedPin (camera emptyLoadedSession) (container emptyLoadedSession)
         originPin ?g = \<lparr>pin = originPin, x = NaN, y = NaN, visible = True\<rparr>"
    using ndc
    by (simp add: specProjectedPin_def e project_normalizedDeviceCoordinates [symmetric] pins
        exampleContainer_def number_ops)
  ultimately show ?thesis by simp
qed

section \<open>Placing the loaded model\<close>





section \<open>Zoom and reset\<close>

lemma defaultPose_position [simp]:
  "defaultPose (s\<lparr>camera := (camera s)\<lparr>position := v\<rparr>\<rparr>) = defaultPose s"
  by (simp add: defaultPose_def)

lemma zoomStep_Some:
  "\<exists>s'. zoomStep lib (Some s) z = Some s' \<and> defaultPose s' = defaultPose s
        \<and> controls s' = controls s"
  by (cases z) (simp_all add: zoomIn_def zoomOut_def Let_def)

lemma zoom_sequence_Some:
  "\<exists>s'. foldl (zoomStep lib) (Some s) ops = Some s' \<and> defaultPose s' = defaultPose s
        \<and> controls s' = controls s"
proof (induction ops rule: rev_induct)
  case Nil
  show ?case by simp
next
  case (snoc z ops)
  then obtain s' where s': "foldl (zoomStep lib) (Some s) ops = Some s'"
    "defaultPose s' = defaultPose s" "controls s' = controls s" by auto
  from zoomStep_Some [of lib s' z] s' show ?case by auto
qed

lemma reset_after_zoom_sequence:
  "resetCamera lib (foldl (zoomStep lib) (Some s) ops) = Some (controlsUpdate lib (defaultPose s))"
  using zoom_sequence_Some [of lib s ops] by (auto simp: resetCamera_def)

text \<open>
  C5, as the code has it. Whatever zoom operations came before, each of which moves the
  camera by 0.5 along its view direction and leaves the controls and their target alone,
  a reset sets the camera position to \<open>(3, 2, 4)\<close> and the target to the origin exactly,
  and then runs the controls' update once on that pose. The session after the reset is
  what that update makes of the default pose; it does not depend on the zoom operations.
\<close>

theorem reset_after_zoom:
  "resetCamera lib (foldl (zoomStep lib) (Some s) ops) = Some (controlsUpdate lib (defaultPose s))
   \<and> position (camera (defaultPose s)) = Vector3 (Num 3) (Num 2) (Num 4)
   \<and> target (controls (defaultPose s)) = Vector3 (Num 0) (Num 0) (Num 0)
   \<and> map_option controls (foldl (zoomStep lib) (Some s) ops) = Some (controls s)
   \<and> map_option (\<lambda>s'. position (camera s')) (zoomIn lib (Some s))
       = Some (addScaledVector (position (camera s)) (getWorldDirection lib (camera s)) (Num 0.5))
   \<and> map_option (\<lambda>s'. position (camera s')) (zoomOut lib (Some s))
       = Some (addScaledVector (position (camera s)) (getWorldDirection lib (camera s)) (Num (- 0.5)))"
  using zoom_sequence_Some [of lib s ops]
  by (auto simp: reset_after_zoom_sequence defaultPose_def zoomIn_def zoomOut_def Let_def)

text \<open>
  With auto-rotation and damping on, as the viewer sets them, the update that ends the reset
  turns the camera about the target by \<open>autoRotateAngle\<close>: the position after the reset
  is \<open>(3 cos a - 4 sin a, 2, 4 cos a + 3 sin a)\<close> and not \<open>(3, 2, 4)\<close>.
\<close>

lemma controls_exampleSession:
  "controls exampleSession =
     \<lparr>target = origin, enableDamping = True, dampingFactor = Num 0.08,
      minDistance = Num 0.5, maxDistance = Num 20, autoRotate = True, autoRotateSpeed = Num 0.5\<rparr>"
  using exampleSession_camera(5) by (simp add: viewerControls_def)

lemma sin_autoRotateAngle: "0 < sin autoRotateAngle"
proof (rule sin_gt_zero)
  show "0 < autoRotateAngle" by (simp add: autoRotateAngle_def)
  have "autoRotateAngle = pi * (0.08 / 3600)" by (simp add: autoRotateAngle_def)
  also have "\<dots> < pi * 1" by (rule mult_strict_left_mono) simp_all
  finally show "autoRotateAngle < pi" by simp
qed

lemma reset_exampleSession:
  "pose (resetCamera exampleThree (Some s)) =
     Some (position (snd (autoRotateStep (controls (defaultPose s)) (camera (defaultPose s)))),
           target (fst (autoRotateStep (controls (defaultPose s)) (camera (defaultPose s)))))"
  by (simp add: pose_def resetCamera_def controlsUpdate_def exampleThree_def orbitStep_eq)

theorem reset_after_zoom_counterexample:
  "pose (resetCamera exampleThree (zoomIn exampleThree (Some exampleSession)))
   \<noteq> Some (Vector3 (Num 3) (Num 2) (Num 4), Vector3 (Num 0) (Num 0) (Num 0))"
proof -
  let ?a = autoRotateAngle
  obtain s' where s': "zoomIn exampleThree (Some exampleSession) = Some s'"
    "defaultPose s' = defaultPose exampleSession"
    using zoomStep_Some [of exampleThree exampleSession ZoomIn] by auto
  have "position (snd (autoRotateStep (controls (defaultPose exampleSession))
                        (camera (defaultPose exampleSession))))
        = Vector3 (Num (3 * cos ?a - 4 * sin ?a)) (Num 2) (Num (4 * cos ?a + 3 * sin ?a))"
    by (simp add: defaultPose_def controls_exampleSession autoRotateStep_def Let_def sub_def
        addVectors_def number_ops autoRotateAngle_def)
  moreover have "\<not> (3 * cos ?a - 4 * sin ?a = 3 \<and> 4 * cos ?a + 3 * sin ?a = 4)"
  proof
    assume "3 * cos ?a - 4 * sin ?a = 3 \<and> 4 * cos ?a + 3 * sin ?a = 4"
    then have "25 * sin ?a = 0" by linarith
    with sin_autoRotateAngle show False by simp
  qed
  ultimately show ?thesis
    by (auto simp: s' reset_exampleSession)
qed

section \<open>Resizing the host surface\<close>

lemma aspect_hostResized:
  "observing s \<Longrightarrow> aspect (camera (hostResized w h s)) = Num (real w) / Num (real h)"
  by (simp add: camera_hostResized)

lemma displayRefresh_scheduled:
  "scheduledFrame s = Some k \<Longrightarrow> displayRefresh lib s = animate lib (s\<lparr>scheduledFrame := None\<rparr>)"
  by (simp add: displayRefresh_def)

lemma projection_hostResized:
  assumes "observing s" and "viewerIntrinsics (camera s)" and "0 < w" and "0 < h"
  shows "projectionMatrix (camera (hostResized w h s)) = viewerProjection (real w / real h)"
proof -
  let ?c = "(camera s)\<lparr>aspect := Num (real w) / Num (real h)\<rparr>"
  have "viewerIntrinsics ?c"
    using assms(2) by (simp add: viewerIntrinsics_def)
  moreover have "aspect ?c = Num (real w / real h)"
    using assms(4) by (simp add: number_ops)
  moreover have "0 < real w / real h"
    using assms(3,4) by simp
  ultimately show ?thesis
    by (simp only: camera_hostResized [OF assms(1)] viewerProjection_eq)
qed

lemma within_unit:
  fixes a k :: real
  assumes "\<bar>a\<bar> \<le> k" and "0 < k"
  shows "- 1 \<le> a / k" and "a / k \<le> 1"
  using assms by (simp_all add: pos_le_divide_eq pos_divide_le_eq abs_le_iff)

lemma projectPin_within:
  assumes "projectPin cam rect p = Inr q"
    and "rect_width rect = Num (real w)" and "rect_height rect = Num (real h)"
    and "projectionMatrix cam = viewerProjection r" and "0 < r"
    and "inViewCone r cam p"
  shows "withinSurface w h q"
proof -
  from assms(6) obtain g a b c where g: "geometry p = Some g"
    and cs: "homogeneousDivide (matrixWorldInverse cam) g = Vector3 (Num a) (Num b) (Num c)"
    and c: "c < 0" and ab: "\<bar>a\<bar> \<le> r * tanHalfFov * (- c)" "\<bar>b\<bar> \<le> tanHalfFov * (- c)"
    by (auto simp: inViewCone_def split: option.splits vector3.splits number.splits)
  define u where "u = a / (r * tanHalfFov * (- c))"
  define v where "v = b / (tanHalfFov * (- c))"
  have k: "0 < r * tanHalfFov * (- c)" "0 < tanHalfFov * (- c)"
    using tanHalfFov_pos c assms(5) by (simp_all add: mult_pos_neg)
  have uv: "- 1 \<le> u" "u \<le> 1" "- 1 \<le> v" "v \<le> 1"
    unfolding u_def v_def
    using within_unit [OF ab(1) k(1)] within_unit [OF ab(2) k(2)] by simp_all
  have "applyMatrix4 g (matrixWorldInverse cam) = Vector3 (Num a) (Num b) (Num c)"
    by (simp only: applyMatrix4_homogeneousDivide cs)
  then have ndc: "project g cam = Vector3 (Num u) (Num v) (Num (200.01 / 199.99 + 4 / (199.99 * c)))"
    using c by (simp add: project_def assms(4) applyMatrix4_viewerProjection [OF assms(5)]
        u_def v_def)
  from assms(1) have q: "x q = Num ((u * 0.5 + 0.5) * real w)" "y q = Num ((- v * 0.5 + 0.5) * real h)"
    by (auto simp: projectPin_def g ndc Let_def assms(2,3) number_ops)
  have "0 \<le> (u * 0.5 + 0.5) * real w" using uv by simp
  moreover have "(u * 0.5 + 0.5) * real w \<le> 1 * real w"
    by (rule mult_right_mono) (use uv in simp_all)
  moreover have "0 \<le> (- v * 0.5 + 0.5) * real h" using uv by simp
  moreover have "(- v * 0.5 + 0.5) * real h \<le> 1 * real h"
    by (rule mult_right_mono) (use uv in simp_all)
  ultimately show ?thesis
    by (simp add: withinSurface_def q number_ops)
qed

lemma map_throwing_list_all2:
  "map_throwing f as = Inr bs \<Longrightarrow> list_all2 (\<lambda>a b. f a = Inr b) as bs"
  by (induction as arbitrary: bs) (auto split: sum.splits)

lemma projectPins_within:
  assumes "projectPins (Some cam) (Some rect) pins = Inr qs"
    and "rect_width rect = Num (real w)" and "rect_height rect = Num (real h)"
    and "projectionMatrix cam = viewerProjection r" and "0 < r"
  shows "list_all (\<lambda>q. inViewCone r cam (pin q) \<longrightarrow> withinSurface w h q) qs"
proof -
  from assms(1) have "list_all2 (\<lambda>p q. projectPin cam rect p = Inr q) pins qs"
    by (simp add: projectPins_as_map map_throwing_list_all2)
  then show ?thesis
  proof (induction pins qs rule: list_all2_induct)
    case Nil
    show ?case by simp
  next
    case (Cons p ps q qs)
    from Cons(1) have "pin q = p" by (rule projectPin_pin)
    with Cons projectPin_within [OF Cons(1) assms(2-5)] show ?case by simp
  qed
qed

text \<open>
  C8, as the code has it. The session \<open>s\<close> is any state that the viewer reaches from its
  construction, with pins that carry their geometry; the surface may have had any size
  before, zero included. No resize is skipped and no tick is skipped: at any size
  \<open>w0\<close> by \<open>h0\<close>, zero included, the resize handler stores \<open>clientWidth / clientHeight\<close>
  in the camera's aspect as JavaScript divides (NaN for 0 by 0, no exception), and the
  next tick renders and projects every pin and raises nothing. Once a positive size
  \<open>w\<close> by \<open>h\<close> is observed, the handler stores the quotient \<open>w / h\<close> and rebuilds the
  projection matrix from it: whatever the matrix held before, it is the viewer's
  projection for the aspect \<open>w / h\<close>. The camera keeps the intrinsics the viewer gave it
  (field of view 45 degrees, near plane 0.01, far plane 200, zoom 1) and the library's
  update of the controls and of the world matrices in the tick leaves the projection
  matrix alone; then the pixel coordinates that the next tick produces lie in
  \<open>[0, w] \<times> [0, h]\<close> for every pin inside the view cone of the camera.
\<close>

theorem resize_then_tick:
  assumes "s = run lib (newSession lib cont fileUrl pins previous) events"
    and "list_all (\<lambda>p. geometry p \<noteq> None) pins"
    and "list_all (\<lambda>p. geometry p \<noteq> None) (pinsRef s)"
    and "viewerIntrinsics (camera s)"
    and "0 < w" and "0 < h"
    and "projectionMatrix (updateMatrixWorld lib (snd (orbitUpdate lib
            (controls (hostResized w h s)) (camera (hostResized w h s)))))
         = projectionMatrix (camera (hostResized w h s))"
  shows "aspect (camera (hostResized w0 h0 s)) = Num (real w0) / Num (real h0)
       \<and> renders (renderer (displayRefresh lib (hostResized w0 h0 s))) = Suc (renders (renderer s))
       \<and> uncaught (displayRefresh lib (hostResized w0 h0 s)) = uncaught s
       \<and> map pin (projected (displayRefresh lib (hostResized w0 h0 s))) = pinsRef s
       \<and> aspect (camera (hostResized w h s)) = Num (real w / real h)
       \<and> projectionMatrix (camera (hostResized w h s)) = viewerProjection (real w / real h)
       \<and> list_all (\<lambda>q. inViewCone (real w / real h)
                           (camera (displayRefresh lib (hostResized w h s))) (pin q)
                         \<longrightarrow> withinSurface w h q)
           (projected (displayRefresh lib (hostResized w h s)))"
proof -
  from run_invariant [of lib lib cont fileUrl pins previous events]
  have inv: "scheduledFrame s = Some (animFrameRef s)" "observing s" "containerRef s"
    by (simp_all add: assms(1))
  have tick: "displayRefresh lib (hostResized a b s)
      = animate lib ((hostResized a b s)\<lparr>scheduledFrame := None\<rparr>)" for a b
    by (rule displayRefresh_scheduled [of _ "animFrameRef s"]) (simp add: inv)
  have projects: "\<exists>qs. projectPins (Some (camera (displayRefresh lib (hostResized a b s))))
                    (Some \<lparr>clientWidth = a, clientHeight = b,
                           rect_width = Num (real a), rect_height = Num (real b)\<rparr>) (pinsRef s)
                    = Inr qs
                  \<and> map pin qs = pinsRef s
                  \<and> projected (displayRefresh lib (hostResized a b s)) = qs
                  \<and> uncaught (displayRefresh lib (hostResized a b s)) = uncaught s" for a b
  proof -
    let ?t = "(hostResized a b s)\<lparr>scheduledFrame := None\<rparr>"
    let ?rect = "\<lparr>clientWidth = a, clientHeight = b,
                 rect_width = Num (real a), rect_height = Num (real b)\<rparr>"
    from map_throwing_pins [OF assms(3), of "camera (animate lib ?t)" ?rect] obtain qs
      where qs: "projectPins (Some (camera (animate lib ?t))) (Some ?rect) (pinsRef s) = Inr qs"
        "map pin qs = pinsRef s"
      by (auto simp: projectPins_as_map)
    have "containerRef ?t" "container ?t = ?rect" "pinsRef ?t = pinsRef s" "uncaught ?t = uncaught s"
      by (simp_all add: inv)
    with animate_projected [of ?t lib qs] qs(1)
    have "projected (animate lib ?t) = qs" "uncaught (animate lib ?t) = uncaught s"
      by simp_all
    with qs show ?thesis
      by (simp only: tick) simp
  qed
  have a0: "aspect (camera (hostResized w0 h0 s)) = Num (real w0) / Num (real h0)"
    by (simp add: aspect_hostResized inv)
  have r0: "renders (renderer (displayRefresh lib (hostResized w0 h0 s))) = Suc (renders (renderer s))"
    by (simp add: tick)
  have a: "aspect (camera (hostResized w h s)) = Num (real w / real h)"
    using assms(6) by (simp add: aspect_hostResized inv number_ops)
  have m: "projectionMatrix (camera (hostResized w h s)) = viewerProjection (real w / real h)"
    by (rule projection_hostResized [OF inv(2) assms(4-6)])
  have "camera (displayRefresh lib (hostResized w h s))
      = updateMatrixWorld lib (snd (orbitUpdate lib (controls (hostResized w h s))
          (camera (hostResized w h s))))"
    by (simp add: tick camera_animate)
  with assms(7) m
  have m': "projectionMatrix (camera (displayRefresh lib (hostResized w h s)))
      = viewerProjection (real w / real h)"
    by simp
  have r: "0 < real w / real h"
    using assms(5,6) by simp
  from projects [of w h] obtain qs
    where qs: "projectPins (Some (camera (displayRefresh lib (hostResized w h s))))
                 (Some \<lparr>clientWidth = w, clientHeight = h,
                        rect_width = Num (real w), rect_height = Num (real h)\<rparr>) (pinsRef s)
               = Inr qs"
      "projected (displayRefresh lib (hostResized w h s)) = qs"
    by auto
  have "list_all (\<lambda>q. inViewCone (real w / real h)
                         (camera (displayRefresh lib (hostResized w h s))) (pin q)
                       \<longrightarrow> withinSurface w h q) qs"
    by (rule projectPins_within [OF qs(1) _ _ m' r]) simp_all
  with projects [of w0 h0] a0 r0 a m qs(2) show ?thesis
    by auto
qed

text \<open>
  The example session, given the pin at the origin and the pin two units above it, holds
  NaN in its projection matrix after the resize to 0 by 0. A resize to 400 by 200 rebuilds
  the matrix for the aspect 2, and the next tick, in which the camera turns about the
  target, projects the first pin into the middle of the surface and the second one near
  its upper edge.
\<close>

lemma zeroSizedSession_eq:
  "zeroSizedSession = hostResized 0 0 (exampleSession\<lparr>pinsRef := [originPin, raisedPin]\<rparr>)"
  by (simp add: zeroSizedSession_def run_def)

lemma zeroSizedSession_camera:
  "onOrbit (camera zeroSizedSession)"
  "viewerIntrinsics (camera zeroSizedSession)"
  "controls zeroSizedSession = viewerControls"
  "e0 (projectionMatrix (camera zeroSizedSession)) = NaN"
proof -
  have o: "observing (exampleSession\<lparr>pinsRef := [originPin, raisedPin]\<rparr>)"
    by (simp add: exampleSession_def)
  note c = camera_hostResized [OF o, of 0 0, folded zeroSizedSession_eq]
  show "onOrbit (camera zeroSizedSession)"
    using exampleSession_camera(1) by (simp add: c onOrbit_def)
  show i: "viewerIntrinsics (camera zeroSizedSession)"
    using exampleSession_camera(2) by (simp add: c viewerIntrinsics_def)
  show "controls zeroSizedSession = viewerControls"
    by (simp add: zeroSizedSession_eq exampleSession_camera(5))
  from exampleSession_camera(2) show "e0 (projectionMatrix (camera zeroSizedSession)) = NaN"
    by (simp add: c updateProjectionMatrix_def makePerspective_def Let_def viewerIntrinsics_def
        number_ops)
qed

theorem resize_then_tick_witness:
  "aspect (camera (hostResized 0 0 zeroSizedSession)) = NaN
   \<and> e0 (projectionMatrix (camera zeroSizedSession)) = NaN
   \<and> aspect (camera (hostResized 400 200 zeroSizedSession)) = Num 2
   \<and> projectionMatrix (camera (hostResized 400 200 zeroSizedSession)) = viewerProjection 2
   \<and> inViewCone 2 (camera (displayRefresh exampleThree (hostResized 400 200 zeroSizedSession)))
       originPin
   \<and> inViewCone 2 (camera (displayRefresh exampleThree (hostResized 400 200 zeroSizedSession)))
       raisedPin
   \<and> projected (displayRefresh exampleThree (hostResized 400 200 zeroSizedSession))
       = [\<lparr>pin = originPin, x = Num 200, y = Num 100, visible = True\<rparr>,
          \<lparr>pin = raisedPin, x = Num 200, y = Num (100 - 40 / tanHalfFov), visible = True\<rparr>]
   \<and> list_all (withinSurface 400 200)
       (projected (displayRefresh exampleThree (hostResized 400 200 zeroSizedSession)))"
proof -
  let ?r = "hostResized 400 200 zeroSizedSession"
  let ?s2 = "displayRefresh exampleThree ?r"
  have z: "zeroSizedSession
      = run exampleThree (newSession exampleThree exampleContainer (Some ''model.glb'')
          [originPin] []) [PinsChanged [originPin, raisedPin], Resized 0 0]"
    by (simp add: zeroSizedSession_def exampleSession_def originPin_def)
  have pins: "pinsRef zeroSizedSession = [originPin, raisedPin]"
    by (simp add: zeroSizedSession_eq)
  have g: "list_all (\<lambda>p. geometry p \<noteq> None) [originPin]"
    by (simp add: originPin_def examplePin_def)
  have g': "list_all (\<lambda>p. geometry p \<noteq> None) (pinsRef zeroSizedSession)"
    by (simp add: pins originPin_def raisedPin_def examplePin_def)
  from run_invariant [of exampleThree exampleThree exampleContainer "Some ''model.glb''"
      "[originPin]" "[]" "[PinsChanged [originPin, raisedPin], Resized 0 0]", folded z]
  have inv: "scheduledFrame zeroSizedSession = Some (animFrameRef zeroSizedSession)"
    "observing zeroSizedSession" "containerRef zeroSizedSession"
    by simp_all
  have cr: "camera ?r
      = updateProjectionMatrix ((camera zeroSizedSession)\<lparr>aspect := Num (real 400) / Num (real 200)\<rparr>)"
    by (rule camera_hostResized [OF inv(2)])
  have orbit: "onOrbit (camera ?r)"
    using zeroSizedSession_camera(1) by (simp add: cr onOrbit_def)
  have c2: "camera ?s2
      = worldInverse (lookAtTarget (snd (autoRotateStep (controls ?r) (camera ?r)))
          (target (controls ?r)))"
    by (rule displayRefresh_exampleThree(1) [of _ "animFrameRef zeroSizedSession"])
      (simp add: inv hostResized_def handleResize_def Let_def)
  have ctl: "controls ?r = viewerControls"
    by (simp add: zeroSizedSession_camera(3))
  note f = framed_camera [OF orbit ctl, folded c2]
  have keeps: "projectionMatrix (updateMatrixWorld exampleThree (snd (orbitUpdate exampleThree
            (controls ?r) (camera ?r)))) = projectionMatrix (camera ?r)"
    using f(3) by (simp add: c2 exampleThree_def orbitStep_eq)
  have "0 \<le> tanHalfFov * sqrt 29"
    using tanHalfFov_pos by simp
  with f(2) have cone: "inViewCone 2 (camera ?s2) originPin"
    by (simp add: inViewCone_def originPin_def examplePin_def
        applyMatrix4_homogeneousDivide [symmetric] origin_def)
  have "10 / sqrt 29 \<le> tanHalfFov * (25 / sqrt 29)"
    using tanHalfFov_bound by (simp add: field_simps)
  moreover have "0 \<le> 2 * tanHalfFov * (25 / sqrt 29)"
    using tanHalfFov_pos by simp
  ultimately have cone': "inViewCone 2 (camera ?s2) raisedPin"
    using f(5)
    by (simp add: inViewCone_def raisedPin_def examplePin_def
        applyMatrix4_homogeneousDivide [symmetric])
  from resize_then_tick [OF z g g' zeroSizedSession_camera(2) _ _ keeps, of 0 0]
  have a0: "aspect (camera (hostResized 0 0 zeroSizedSession)) = NaN"
    by (simp add: number_ops)
  from resize_then_tick [OF z g g' zeroSizedSession_camera(2) _ _ keeps, of 400 200]
  have a: "aspect (camera ?r) = Num 2"
    and m: "projectionMatrix (camera ?r) = viewerProjection 2"
    and p: "map pin (projected ?s2) = [originPin, raisedPin]"
    and w: "list_all (\<lambda>q. inViewCone 2 (camera ?s2) (pin q) \<longrightarrow> withinSurface 400 200 q)
              (projected ?s2)"
    by (simp_all add: pins number_ops)
  from p obtain q1 q2 where qs: "projected ?s2 = [q1, q2]" "pin q1 = originPin" "pin q2 = raisedPin"
    by auto
  with w cone cone' have within: "list_all (withinSurface 400 200) (projected ?s2)"
    by simp
  let ?t = "?r\<lparr>scheduledFrame := None\<rparr>"
  have tick: "?s2 = animate exampleThree ?t"
    by (rule displayRefresh_scheduled [of _ "animFrameRef zeroSizedSession"])
      (simp add: inv hostResized_def handleResize_def Let_def)
  have m2: "projectionMatrix (camera ?s2) = viewerProjection 2"
    using f(3) m by simp
  from project_origin_framed [OF f(2) m2] project_raised_framed [OF f(5) m2]
  have ndc: "project (Vector3 (Num 0) (Num 0) (Num 0)) (camera ?s2)
      = Vector3 (Num 0) (Num 0) (Num (200.01 / 199.99 + 4 / (199.99 * (- sqrt 29))))"
    "project (Vector3 (Num 0) (Num 2) (Num 0)) (camera ?s2)
      = Vector3 (Num 0) (Num (2 / (5 * tanHalfFov)))
          (Num (200.01 / 199.99 + 4 / (199.99 * (- (25 / sqrt 29)))))"
    by (simp_all add: origin_def)
  have t: "containerRef ?t" "pinsRef ?t = [originPin, raisedPin]"
    "container ?t = \<lparr>clientWidth = 400, clientHeight = 200,
                     rect_width = Num 400, rect_height = Num 200\<rparr>"
    by (simp_all add: pins inv)
  have "(- (2 / (5 * tanHalfFov)) * 0.5 + 0.5) * 200 = 100 - 40 / tanHalfFov"
    using tanHalfFov_pos by (simp add: field_simps)
  then have "projectPins (Some (camera (animate exampleThree ?t))) (Some (container ?t)) (pinsRef ?t)
      = Inr [\<lparr>pin = originPin, x = Num 200, y = Num 100, visible = True\<rparr>,
             \<lparr>pin = raisedPin, x = Num 200, y = Num (100 - 40 / tanHalfFov), visible = True\<rparr>]"
    using depth_origin_framed depth_raised_framed
    by (simp add: t projectPins_def projectPin_def originPin_def raisedPin_def examplePin_def
        Let_def ndc [unfolded tick] number_ops)
  with animate_projected [OF t(1)]
  have "projected ?s2
      = [\<lparr>pin = originPin, x = Num 200, y = Num 100, visible = True\<rparr>,
         \<lparr>pin = raisedPin, x = Num 200, y = Num (100 - 40 / tanHalfFov), visible = True\<rparr>]"
    by (simp add: tick)
  with a0 a m cone cone' within zeroSizedSession_camera(4) show ?thesis
    by simp
qed

theorem resize_then_tick_counterexample:
  "aspect (camera (hostResized 0 0 exampleSession)) = NaN
   \<and> renders (renderer (displayRefresh exampleThree (hostResized 0 0 exampleSession)))
       = Suc (renders (renderer (hostResized 0 0 exampleSession)))"
  by (simp add: exampleSession_def aspect_hostResized displayRefresh_def number_ops)

end
